theory Spec2Isabelle
  imports Main "HOL-Library.Sublist"
begin

text \<open>
  A shallow embedding of \<^verbatim>\<open>cartoframes/datasets.py\<close>: the \<^verbatim>\<open>Dataset\<close> upload and download
  pipeline, its geometry codec, its row serializer and its read retry wrapper.
  Exceptions are values (\<open>Inl\<close> of a sum), calls of the remote service are events
  of a log, and what the module takes from other modules and libraries is a
  parameter.
\<close>

section \<open>Values, exceptions and text\<close>

text \<open>
  The exceptions that \<^verbatim>\<open>cartoframes/datasets.py\<close> raises, catches or lets through.
  \<^verbatim>\<open>CartoRateLimitException\<close> is a subclass of \<^verbatim>\<open>CartoException\<close> and carries the
  server's \<^verbatim>\<open>retry_after\<close>; every constructor carries the message \<^verbatim>\<open>str(e)\<close>.
\<close>

datatype exn =
    CartoException string
  | CartoRateLimitException nat string
  | ValueError string
  | NameError string
  | ImportError string
  | KeyError string
  | IndexError string
  | TypeError string
  | AttributeError string

fun is_CartoException :: "exn \<Rightarrow> bool" where
  "is_CartoException (CartoException m) = True"
| "is_CartoException (CartoRateLimitException r m) = True"
| "is_CartoException e = False"

fun exn_str :: "exn \<Rightarrow> string" where
  "exn_str (CartoException m) = m"
| "exn_str (CartoRateLimitException r m) = m"
| "exn_str (ValueError m) = m"
| "exn_str (NameError m) = m"
| "exn_str (ImportError m) = m"
| "exn_str (KeyError m) = m"
| "exn_str (IndexError m) = m"
| "exn_str (TypeError m) = m"
| "exn_str (AttributeError m) = m"

text \<open>
  A geometry object as the code sees it: its \<^verbatim>\<open>geom_type\<close> and \<^verbatim>\<open>wkt\<close> attributes and
  its truth value under \<^verbatim>\<open>if geom:\<close> (an empty geometry is false).
\<close>

record geometry =
  geom_type :: string
  wkt :: string
  nonempty :: bool

text \<open>The scalar values a dataframe cell or a parameter holds.\<close>

datatype pyval =
    VNone
  | VNaN
  | VBool bool
  | VInt int
  | VStr string
  | VBytes string
  | VGeom geometry

definition dq :: string where
  "dq = [CHR 0x22]"

definition sq :: string where
  "sq = [CHR 0x27]"

definition nl :: string where
  "nl = [CHR 0x0A]"

definition no_attribute :: "string \<Rightarrow> exn" where
  "no_attribute a = AttributeError (sq @ ''NoneType'' @ sq @ '' object has no attribute '' @ sq @ a @ sq)"

definition not_iterable :: exn where
  "not_iterable = TypeError (sq @ ''NoneType'' @ sq @ '' object is not iterable'')"

definition digit_char :: "nat \<Rightarrow> char" where
  "digit_char n = ''0123456789abcdef'' ! n"

fun str_nat :: "nat \<Rightarrow> string" where
  "str_nat n = (if n < 10 then [digit_char n] else str_nat (n div 10) @ [digit_char (n mod 10)])"

declare str_nat.simps [simp del]

definition str_int :: "int \<Rightarrow> string" where
  "str_int i = (if i < 0 then ''-'' @ str_nat (nat (- i)) else str_nat (nat i))"

text \<open>\<^verbatim>\<open>repr\<close> of a bytes object, which is what \<^verbatim>\<open>str\<close> and \<^verbatim>\<open>format\<close> give for it.\<close>

definition bytes_quote :: "string \<Rightarrow> char" where
  "bytes_quote b = (if CHR 0x27 \<in> set b \<and> CHR 0x22 \<notin> set b then CHR 0x22 else CHR 0x27)"

definition bytes_escape :: "char \<Rightarrow> char \<Rightarrow> string" where
  "bytes_escape q c =
     (if c = q \<or> c = CHR 0x5C then [CHR 0x5C, c]
      else if c = CHR 0x09 then [CHR 0x5C, CHR ''t'']
      else if c = CHR 0x0A then [CHR 0x5C, CHR ''n'']
      else if c = CHR 0x0D then [CHR 0x5C, CHR ''r'']
      else if (of_char c :: nat) < 32 \<or> (of_char c :: nat) \<ge> 127
        then [CHR 0x5C, CHR ''x'', digit_char (of_char c div 16), digit_char (of_char c mod 16)]
      else [c])"

definition bytes_repr :: "string \<Rightarrow> string" where
  "bytes_repr b = (let q = bytes_quote b in ''b'' @ [q] @ concat (map (bytes_escape q) b) @ [q])"

text \<open>\<^verbatim>\<open>'{val}'.format(val=val)\<close>: the text of a value.\<close>

fun py_str :: "pyval \<Rightarrow> string" where
  "py_str VNone = ''None''"
| "py_str VNaN = ''nan''"
| "py_str (VBool b) = (if b then ''True'' else ''False'')"
| "py_str (VInt i) = str_int i"
| "py_str (VStr s) = s"
| "py_str (VBytes b) = bytes_repr b"
| "py_str (VGeom g) = wkt g"

text \<open>Truth value of a value under \<^verbatim>\<open>if v:\<close>.\<close>

fun py_truthy :: "pyval \<Rightarrow> bool" where
  "py_truthy VNone = False"
| "py_truthy VNaN = True"
| "py_truthy (VBool b) = b"
| "py_truthy (VInt i) = (i \<noteq> 0)"
| "py_truthy (VStr s) = (s \<noteq> [])"
| "py_truthy (VBytes b) = (b \<noteq> [])"
| "py_truthy (VGeom g) = nonempty g"

text \<open>\<^verbatim>\<open>pd.isnull(val)\<close> on a scalar.\<close>

fun isnull :: "pyval \<Rightarrow> bool" where
  "isnull VNone = True"
| "isnull VNaN = True"
| "isnull v = False"

text \<open>\<^verbatim>\<open>hasattr(v, 'geom_type')\<close>.\<close>

fun has_geom_type :: "pyval \<Rightarrow> bool" where
  "has_geom_type (VGeom g) = True"
| "has_geom_type v = False"

text \<open>\<^verbatim>\<open>', '.join(xs)\<close> and friends.\<close>

fun join :: "string \<Rightarrow> string list \<Rightarrow> string" where
  "join sep [] = []"
| "join sep [x] = x"
| "join sep (x # y # ys) = x @ sep @ join sep (y # ys)"

section \<open>What the module imports from outside \<^verbatim>\<open>datasets.py\<close>\<close>

text \<open>
  The constants of class \<^verbatim>\<open>Column\<close>, \<^verbatim>\<open>normalize_names\<close> and \<^verbatim>\<open>normalize_name\<close> (module
  \<^verbatim>\<open>columns\<close>), and the
  library calls of the geometry codec (\<^verbatim>\<open>binascii.unhexlify\<close>, \<^verbatim>\<open>shapely.wkb.loads\<close>,
  \<^verbatim>\<open>shapely.wkt.loads\<close>) are parameters. A library call that raises gives \<open>None\<close>.
  \<open>shapely_import\<close> is \<open>None\<close> when \<^verbatim>\<open>from shapely import wkb, wkt\<close> succeeds and
  \<open>Some msg\<close> when it raises \<^verbatim>\<open>ImportError(msg)\<close>.
\<close>

record externals =
  SUPPORTED_GEOM_COL_NAMES :: "string list"
  RESERVED_COLUMN_NAMES :: "string list"
  normalize_names :: "string list \<Rightarrow> string list"
  normalize_name :: "string \<Rightarrow> string"
  shapely_import :: "string option"
  unhexlify :: "pyval \<Rightarrow> pyval option"
  wkb_loads :: "pyval \<Rightarrow> bool \<Rightarrow> geometry option"
  wkt_loads :: "pyval \<Rightarrow> geometry option"

section \<open>Geometry codec\<close>

text \<open>
  The five attempts of \<^verbatim>\<open>_decode_geom\<close>, named after the call each makes:
  \<^verbatim>\<open>wkb.loads(ba.unhexlify(ewkb))\<close>, \<^verbatim>\<open>wkb.loads(ba.unhexlify(ewkb), hex=True)\<close>,
  \<^verbatim>\<open>wkb.loads(ewkb, hex=True)\<close>, \<^verbatim>\<open>wkb.loads(ewkb)\<close>, \<^verbatim>\<open>wkt.loads(ewkb)\<close>.
\<close>

datatype attempt = UnhexWkb | UnhexWkbHex | WkbHex | Wkb | Wkt

fun attempt_result :: "externals \<Rightarrow> attempt \<Rightarrow> pyval \<Rightarrow> geometry option" where
  "attempt_result ext UnhexWkb x =
     (case unhexlify ext x of None \<Rightarrow> None | Some b \<Rightarrow> wkb_loads ext b False)"
| "attempt_result ext UnhexWkbHex x =
     (case unhexlify ext x of None \<Rightarrow> None | Some b \<Rightarrow> wkb_loads ext b True)"
| "attempt_result ext WkbHex x = wkb_loads ext x True"
| "attempt_result ext Wkb x = wkb_loads ext x False"
| "attempt_result ext Wkt x = wkt_loads ext x"

definition shapely_missing_msg :: "string \<Rightarrow> string" where
  "shapely_missing_msg err =
     ''The Python package `shapely` needs to be installed to encode or decode geometries. (''
       @ err @ '')''"

text \<open>
  \<^verbatim>\<open>_decode_geom\<close> under its decorator. The result comes with the attempts made, in the
  order they were made. An \<^verbatim>\<open>ImportError\<close> of the imports is re-raised by the decorator
  with its own message; every exception of an attempt is caught by \<^verbatim>\<open>except Exception\<close>.
\<close>

definition decode_geom_traced :: "externals \<Rightarrow> pyval \<Rightarrow> (exn + pyval) \<times> attempt list" where
  "decode_geom_traced ext ewkb =
     (if has_geom_type ewkb then (Inr ewkb, [])
      else case shapely_import ext of
        Some err \<Rightarrow> (Inl (ImportError (shapely_missing_msg err)), [])
      | None \<Rightarrow>
          if py_truthy ewkb then
            (case attempt_result ext UnhexWkb ewkb of
               Some g \<Rightarrow> (Inr (VGeom g), [UnhexWkb])
             | None \<Rightarrow>
            (case attempt_result ext UnhexWkbHex ewkb of
               Some g \<Rightarrow> (Inr (VGeom g), [UnhexWkb, UnhexWkbHex])
             | None \<Rightarrow>
            (case attempt_result ext WkbHex ewkb of
               Some g \<Rightarrow> (Inr (VGeom g), [UnhexWkb, UnhexWkbHex, WkbHex])
             | None \<Rightarrow>
            (case attempt_result ext Wkb ewkb of
               Some g \<Rightarrow> (Inr (VGeom g), [UnhexWkb, UnhexWkbHex, WkbHex, Wkb])
             | None \<Rightarrow>
            (case attempt_result ext Wkt ewkb of
               Some g \<Rightarrow> (Inr (VGeom g), [UnhexWkb, UnhexWkbHex, WkbHex, Wkb, Wkt])
             | None \<Rightarrow> (Inr VNone, [UnhexWkb, UnhexWkbHex, WkbHex, Wkb, Wkt]))))))
          else (Inr VNone, []))"

definition decode_geom :: "externals \<Rightarrow> pyval \<Rightarrow> exn + pyval" where
  "decode_geom ext ewkb = fst (decode_geom_traced ext ewkb)"

definition attempt_order :: "attempt list" where
  "attempt_order = [UnhexWkb, UnhexWkbHex, WkbHex, Wkb, Wkt]"

section \<open>Dataframe, remote context and Dataset\<close>

text \<open>
  A dataframe as the module reads it: its column labels in order, the dtype of each
  column (as \<^verbatim>\<open>str(dtype)\<close>), its rows (\<open>r c\<close> is \<^verbatim>\<open>row[c]\<close> for a column \<open>c\<close> of the
  frame; any other label raises \<^verbatim>\<open>KeyError\<close>) and the attribute
  \<^verbatim>\<open>_geometry_column_name\<close> when the frame has one.
\<close>

record dataframe =
  columns :: "string list"
  dtypes :: "(string \<times> string) list"
  rows :: "(string \<Rightarrow> pyval) list"
  geometry_column_name :: "string option"

text \<open>
  Modelled from the spec: class \<^verbatim>\<open>Column\<close> of the module \<^verbatim>\<open>columns\<close>, which is not among
  the sources. A column descriptor is a (name, database type) pair.
\<close>

record column =
  name :: string
  pgtype :: string

text \<open>The result of \<^verbatim>\<open>sql_client.send\<close>: field metadata and rows (each row a dict).\<close>

record sql_result =
  result_fields :: "(string \<times> string) list"
  result_rows :: "(string \<times> string) list list"

text \<open>
  Every call of a collaborator, every warning, sleep and debug print is an event, and
  the log is the state the operations pass along. A collaborator answers as a function
  of the log before the call, so its answers may change from one call to the next.
  \<open>CopyFrom q ls\<close> is a bulk-copy call whose row stream yielded the lines \<open>ls\<close>.
\<close>

datatype event =
    SqlSend string bool
  | BatchSubmit string
  | CopyFrom string "string list"
  | CopyTo string
  | Fetch string bool
  | Warn string
  | Sleep nat
  | DebugPrint exn

record carto_context =
  sql_client_send :: "event list \<Rightarrow> string \<Rightarrow> bool \<Rightarrow> exn + sql_result"
  create_and_wait_for_completion :: "event list \<Rightarrow> string \<Rightarrow> exn + (string \<times> pyval) list"
  copy_client_copyfrom :: "event list \<Rightarrow> string \<Rightarrow> string list \<Rightarrow> exn option"
  copy_client_copyto_stream :: "event list \<Rightarrow> string \<Rightarrow> exn + string"
  cc_fetch :: "event list \<Rightarrow> string \<Rightarrow> bool \<Rightarrow> exn + dataframe"
  from_sql_api_fields :: "(string \<times> string) list \<Rightarrow> column list"
  is_org :: bool
  creds_username :: string

record dataset =
  table_name :: string
  schema :: string
  df :: "dataframe option"
  normalized_column_names :: "(string \<times> string) list option"

definition FAIL :: string where "FAIL = ''fail''"
definition REPLACE :: string where "REPLACE = ''replace''"
definition APPEND :: string where "APPEND = ''append''"
definition DEFAULT_RETRY_TIMES :: int where "DEFAULT_RETRY_TIMES = 3"

section \<open>Schema helpers\<close>

definition lower_char :: "char \<Rightarrow> char" where
  "lower_char c =
     (if (65::nat) \<le> of_char c \<and> of_char c \<le> (90::nat) then char_of (of_char c + (32::nat)) else c)"

definition lower :: "string \<Rightarrow> string" where
  "lower s = map lower_char s"

text \<open>
  \<^verbatim>\<open>_normalize_column_names\<close>; \<^verbatim>\<open>zip\<close> stops at the shorter list. The list of renamed
  columns it prints changes nothing it returns and is left out.
\<close>

definition normalize_column_names :: "externals \<Rightarrow> dataframe \<Rightarrow> (string \<times> string) list" where
  "normalize_column_names ext d =
     (let column_names = filter (\<lambda>c. c \<notin> set (RESERVED_COLUMN_NAMES ext)) (columns d);
          normalized_columns = normalize_names ext column_names
      in map (\<lambda>(orig, norm). (norm, orig)) (zip column_names normalized_columns))"

definition dtypes2pg :: "string \<Rightarrow> string" where
  "dtypes2pg dtype =
     (case map_of
        [(''float64'', ''numeric''),
         (''int64'', ''integer''),
         (''float32'', ''numeric''),
         (''int32'', ''integer''),
         (''object'', ''text''),
         (''bool'', ''boolean''),
         (''datetime64[ns]'', ''timestamp''),
         (''datetime64[ns, UTC]'', ''timestamp'')] dtype of
        Some t \<Rightarrow> t
      | None \<Rightarrow> ''text'')"

definition get_geom_col_name :: "externals \<Rightarrow> dataframe \<Rightarrow> string option" where
  "get_geom_col_name ext d =
     (case geometry_column_name d of
        Some g \<Rightarrow> Some g
      | None \<Rightarrow> find (\<lambda>x. lower x \<in> set (SUPPORTED_GEOM_COL_NAMES ext)) (columns d))"

definition first_not_null_value :: "dataframe \<Rightarrow> string \<Rightarrow> exn + pyval" where
  "first_not_null_value d col =
     (if col \<notin> set (columns d) then Inl (KeyError col)
      else case filter (\<lambda>v. \<not> isnull v) (map (\<lambda>r. r col) (rows d)) of
             [] \<Rightarrow> Inl (IndexError ''single positional indexer is out-of-bounds'')
           | v # vs \<Rightarrow> Inr v)"

text \<open>
  \<^verbatim>\<open>_get_geom_col_type\<close>: the \<^verbatim>\<open>try\<close> catches an \<^verbatim>\<open>IndexError\<close> only. The second component
  is the warnings emitted.
\<close>

definition get_geom_col_type :: "externals \<Rightarrow> dataframe \<Rightarrow> (exn + string option) \<times> event list" where
  "get_geom_col_type ext d =
     (case get_geom_col_name ext d of
        None \<Rightarrow> (Inr None, [])
      | Some geom_col \<Rightarrow>
         (case first_not_null_value d geom_col of
            Inl (IndexError m) \<Rightarrow> (Inr None, [Warn ''Dataset with null geometries''])
          | Inl e \<Rightarrow> (Inl e, [])
          | Inr v \<Rightarrow>
             (case decode_geom ext v of
                Inl (IndexError m) \<Rightarrow> (Inr None, [Warn ''Dataset with null geometries''])
              | Inl e \<Rightarrow> (Inl e, [])
              | Inr VNone \<Rightarrow> (Inr None, [])
              | Inr (VGeom g) \<Rightarrow> (Inr (Some (geom_type g)), [])
              | Inr other \<Rightarrow> (Inl (AttributeError ''geom_type''), []))))"

section \<open>Table lifecycle\<close>

definition drop_table_query :: "dataset \<Rightarrow> bool \<Rightarrow> string" where
  "drop_table_query ds if_exists =
     ''DROP TABLE '' @ (if if_exists then ''IF EXISTS'' else []) @ '' '' @ table_name ds"

definition create_table_from_query :: "dataset \<Rightarrow> string \<Rightarrow> string" where
  "create_table_from_query ds query = ''CREATE TABLE '' @ table_name ds @ '' AS ('' @ query @ '')''"

definition cartodbfy_query :: "carto_context \<Rightarrow> dataset \<Rightarrow> string" where
  "cartodbfy_query cc ds =
     ''SELECT CDB_CartodbfyTable('' @ sq
       @ (if is_org cc then creds_username cc else ''public'') @ sq @ '', '' @ sq
       @ table_name ds @ sq @ '')''"

text \<open>One column definition of the \<^verbatim>\<open>CREATE TABLE\<close>; \<^verbatim>\<open>df.dtypes[orig]\<close> may raise.\<close>

definition col_def :: "dataframe \<Rightarrow> string \<times> string \<Rightarrow> exn + string" where
  "col_def d = (\<lambda>(norm, orig).
     (case map_of (dtypes d) orig of
        None \<Rightarrow> Inl (KeyError orig)
      | Some dtype \<Rightarrow> Inr (norm @ '' '' @ dtypes2pg dtype)))"

fun col_defs :: "dataframe \<Rightarrow> (string \<times> string) list \<Rightarrow> exn + string list" where
  "col_defs d [] = Inr []"
| "col_defs d (p # ps) =
     (case col_def d p of
        Inl e \<Rightarrow> Inl e
      | Inr x \<Rightarrow> (case col_defs d ps of Inl e \<Rightarrow> Inl e | Inr xs \<Rightarrow> Inr (x # xs)))"

definition geom_col_def :: "string \<Rightarrow> string" where
  "geom_col_def gt = '', the_geom geometry('' @ gt @ '', 4326)''"

text \<open>
  \<^verbatim>\<open>_create_table_query\<close>. The geometry type is looked up first; the column definitions
  are joined next; \<^verbatim>\<open>if geom_type:\<close> is false for \<^verbatim>\<open>None\<close> and for the empty string.
\<close>

definition create_table_query ::
  "externals \<Rightarrow> dataset \<Rightarrow> (string \<times> string) option \<Rightarrow> (exn + string) \<times> event list" where
  "create_table_query ext ds with_lonlat =
     (let (gt, warns) =
            (case with_lonlat of
               None \<Rightarrow>
                 (case df ds of
                    None \<Rightarrow> (Inl (no_attribute ''columns''), [])
                  | Some d \<Rightarrow> get_geom_col_type ext d)
             | Some ll \<Rightarrow> (Inr (Some ''Point''), []))
      in case gt of
           Inl e \<Rightarrow> (Inl e, warns)
         | Inr gtype \<Rightarrow>
            (case normalized_column_names ds of
               None \<Rightarrow> (Inl not_iterable, warns)
             | Some ncn \<Rightarrow>
                (case (case df ds of
                         None \<Rightarrow> (if ncn = [] then Inr [] else Inl (no_attribute ''dtypes''))
                       | Some d \<Rightarrow> col_defs d ncn) of
                   Inl e \<Rightarrow> (Inl e, warns)
                 | Inr defs \<Rightarrow>
                    (let cols = join '', '' defs
                              @ (case gtype of
                                   None \<Rightarrow> []
                                 | Some t \<Rightarrow> if t \<noteq> [] then geom_col_def t else [])
                     in (Inr (''CREATE TABLE '' @ table_name ds @ '' ('' @ cols @ '')''), warns)))))"

definition create_batch :: "carto_context \<Rightarrow> dataset \<Rightarrow> string \<Rightarrow> string" where
  "create_batch cc ds create =
     ''BEGIN; '' @ drop_table_query ds True @ ''; '' @ create @ ''; '' @ cartodbfy_query cc ds
       @ ''; COMMIT;''"

text \<open>
  \<^verbatim>\<open>_create_table\<close>: one batch is submitted and waited for; the job is a dict, and reading
  a key it lacks raises \<^verbatim>\<open>KeyError\<close>.
\<close>

definition create_table ::
  "externals \<Rightarrow> carto_context \<Rightarrow> dataset \<Rightarrow> (string \<times> string) option \<Rightarrow> event list
     \<Rightarrow> (exn + unit) \<times> event list" where
  "create_table ext cc ds with_lonlat log =
     (case create_table_query ext ds with_lonlat of
        (Inl e, warns) \<Rightarrow> (Inl e, log @ warns)
      | (Inr create, warns) \<Rightarrow>
         (let log1 = log @ warns;
              sql = create_batch cc ds create;
              log2 = log1 @ [BatchSubmit sql]
          in case create_and_wait_for_completion cc log1 sql of
               Inl e \<Rightarrow> (Inl e, log2)
             | Inr job \<Rightarrow>
                (case map_of job ''status'' of
                   None \<Rightarrow> (Inl (KeyError ''status''), log2)
                 | Some st \<Rightarrow>
                    if st \<noteq> VStr ''done'' then
                      (case map_of job ''failed_reason'' of
                         None \<Rightarrow> (Inl (KeyError ''failed_reason''), log2)
                       | Some r \<Rightarrow>
                          (Inl (CartoException (''Cannot create table: '' @ py_str r @ ''.'')), log2))
                    else (Inr (), log2))))"

text \<open>
  The constructor call \<^verbatim>\<open>Dataset(cart_context, table_name)\<close>: the schema takes its default
  and there is no dataframe, so the branch for a dataframe is not entered. It warns
  (with the name as given) when normalizing changed the name.
\<close>

definition Dataset_init :: "externals \<Rightarrow> string \<Rightarrow> event list \<Rightarrow> dataset \<times> event list" where
  "Dataset_init ext tname log =
     (let ds = \<lparr>table_name = normalize_name ext tname, schema = ''public'', df = None,
                normalized_column_names = None\<rparr>
      in (ds, if table_name ds \<noteq> tname
              then log @ [Warn (''Table will be named `'' @ tname @ ''`'')] else log))"

text \<open>
  \<^verbatim>\<open>Dataset.create_from_query\<close>: the batch is submitted and waited for, and what it
  returns is dropped; the new Dataset is returned.
\<close>

definition create_from_query ::
  "externals \<Rightarrow> carto_context \<Rightarrow> string \<Rightarrow> string \<Rightarrow> event list
     \<Rightarrow> (exn + dataset) \<times> event list" where
  "create_from_query ext cc query tname log =
     (case Dataset_init ext tname log of
        (ds, log1) \<Rightarrow>
          (let sql = create_batch cc ds (create_table_from_query ds query)
           in case create_and_wait_for_completion cc log1 sql of
                Inl e \<Rightarrow> (Inl e, log1 @ [BatchSubmit sql])
              | Inr job \<Rightarrow> (Inr ds, log1 @ [BatchSubmit sql])))"

definition exists_query :: "dataset \<Rightarrow> string" where
  "exists_query ds = ''EXPLAIN SELECT * FROM '' @ dq @ table_name ds @ dq"

text \<open>\<^verbatim>\<open>Dataset.exists\<close>: \<^verbatim>\<open>except CartoException\<close> catches the class and its subclasses.\<close>

definition Dataset_exists :: "carto_context \<Rightarrow> dataset \<Rightarrow> event list \<Rightarrow> (exn + bool) \<times> event list" where
  "Dataset_exists cc ds log =
     (let q = exists_query ds; log1 = log @ [SqlSend q False]
      in case sql_client_send cc log q False of
           Inr r \<Rightarrow> (Inr True, log1)
         | Inl err \<Rightarrow>
            if is_CartoException err then (Inr False, log1 @ [DebugPrint err])
            else (Inl err, log1))"

section \<open>Bulk row serializer\<close>

text \<open>The four variables \<^verbatim>\<open>_rows\<close> carries through the columns of one row.\<close>

record row_acc =
  csv_row :: string
  the_geom_val :: pyval
  lng_val :: pyval
  lat_val :: pyval

definition row_acc0 :: row_acc where
  "row_acc0 = \<lparr>csv_row = [], the_geom_val = VNone, lng_val = VNone, lat_val = VNone\<rparr>"

text \<open>
  The inner loop \<^verbatim>\<open>for col in cols\<close>. \<^verbatim>\<open>with_lonlat\<close> is \<open>None\<close> or a pair of column names.
\<close>

fun rows_cols ::
  "externals \<Rightarrow> dataframe \<Rightarrow> (string \<Rightarrow> pyval) \<Rightarrow> (string \<times> string) option \<Rightarrow> string option
     \<Rightarrow> string list \<Rightarrow> row_acc \<Rightarrow> exn + row_acc" where
  "rows_cols ext d row with_lonlat geom_col [] acc = Inr acc"
| "rows_cols ext d row with_lonlat geom_col (col # cols) acc =
     (if with_lonlat \<noteq> None \<and> col \<in> set (SUPPORTED_GEOM_COL_NAMES ext)
        then rows_cols ext d row with_lonlat geom_col cols acc
      else if col \<notin> set (columns d) then Inl (KeyError col)
      else
        (let v = row col;
             val = (if isnull v \<or> v = VNone then [] else py_str v);
             acc1 = (case with_lonlat of
                       None \<Rightarrow> acc
                     | Some (lng, lat) \<Rightarrow>
                        (let a = (if col = lng then acc\<lparr>lng_val := v\<rparr> else acc)
                         in if col = lat then a\<lparr>lat_val := v\<rparr> else a));
             acc2 = (if Some col = geom_col then acc1\<lparr>the_geom_val := v\<rparr>
                     else acc1\<lparr>csv_row := csv_row acc1 @ val @ ''|''\<rparr>)
         in rows_cols ext d row with_lonlat geom_col cols acc2))"

text \<open>The geometry field of a line: decoded, tested with \<^verbatim>\<open>if geom:\<close>, written as EWKT.\<close>

definition geom_field :: "externals \<Rightarrow> pyval \<Rightarrow> exn + string" where
  "geom_field ext v =
     (if v \<noteq> VNone then
        (case decode_geom ext v of
           Inl e \<Rightarrow> Inl e
         | Inr geom \<Rightarrow>
            if py_truthy geom then
              (case geom of
                 VGeom g \<Rightarrow> Inr (''SRID=4326;'' @ wkt g)
               | other \<Rightarrow> Inl (AttributeError ''wkt''))
            else Inr [])
      else Inr [])"

definition lonlat_field :: "(string \<times> string) option \<Rightarrow> row_acc \<Rightarrow> string" where
  "lonlat_field with_lonlat acc =
     (if with_lonlat \<noteq> None \<and> lng_val acc \<noteq> VNone \<and> lat_val acc \<noteq> VNone
      then ''SRID=4326;POINT('' @ py_str (lng_val acc) @ '' '' @ py_str (lat_val acc) @ '')''
      else [])"

text \<open>One iteration of \<^verbatim>\<open>for i, row in df.iterrows()\<close>: the line yielded, or the exception.\<close>

definition row_line ::
  "externals \<Rightarrow> dataframe \<Rightarrow> string list \<Rightarrow> (string \<times> string) option \<Rightarrow> string option
     \<Rightarrow> (string \<Rightarrow> pyval) \<Rightarrow> exn + string" where
  "row_line ext d cols with_lonlat geom_col row =
     (case rows_cols ext d row with_lonlat geom_col cols row_acc0 of
        Inl e \<Rightarrow> Inl e
      | Inr acc \<Rightarrow>
         (case geom_field ext (the_geom_val acc) of
            Inl e \<Rightarrow> Inl e
          | Inr gf \<Rightarrow> Inr (csv_row acc @ gf @ lonlat_field with_lonlat acc @ nl)))"

text \<open>
  \<^verbatim>\<open>_rows\<close>, a generator: one element per row of the frame, in order. Whoever consumes it
  gets the lines before the first exception, and then that exception.
\<close>

definition Dataset_rows ::
  "externals \<Rightarrow> dataframe \<Rightarrow> string list \<Rightarrow> (string \<times> string) option \<Rightarrow> string option
     \<Rightarrow> (exn + string) list" where
  "Dataset_rows ext d cols with_lonlat geom_col =
     map (row_line ext d cols with_lonlat geom_col) (rows d)"

fun yielded :: "(exn + string) list \<Rightarrow> string list \<times> exn option" where
  "yielded [] = ([], None)"
| "yielded (Inl e # xs) = ([], Some e)"
| "yielded (Inr l # xs) = (case yielded xs of (ls, r) \<Rightarrow> (l # ls, r))"

definition copyfrom_query :: "dataset \<Rightarrow> string \<Rightarrow> string" where
  "copyfrom_query ds cols =
     ''COPY '' @ table_name ds @ ''('' @ cols @ '',the_geom)'' @ nl
       @ ''               FROM stdin WITH (FORMAT csv, DELIMITER '' @ sq @ ''|'' @ sq @ '');''"

text \<open>\<^verbatim>\<open>_copyfrom\<close>: the bulk-copy call, whose transport consumes the row stream.\<close>

definition Dataset_copyfrom ::
  "externals \<Rightarrow> carto_context \<Rightarrow> dataset \<Rightarrow> (string \<times> string) option \<Rightarrow> event list
     \<Rightarrow> (exn + unit) \<times> event list" where
  "Dataset_copyfrom ext cc ds with_lonlat log =
     (case df ds of
        None \<Rightarrow> (Inl (no_attribute ''columns''), log)
      | Some d \<Rightarrow>
         (let geom_col = get_geom_col_name ext d
          in case normalized_column_names ds of
               None \<Rightarrow> (Inl not_iterable, log)
             | Some ncn \<Rightarrow>
                (let q = copyfrom_query ds (join '','' (map fst ncn));
                     cols = filter (\<lambda>c. c \<noteq> ''cartodb_id'') (columns d)
                 in case yielded (Dataset_rows ext d cols with_lonlat geom_col) of
                      (ls, Some e) \<Rightarrow> (Inl e, log @ [CopyFrom q ls])
                    | (ls, None) \<Rightarrow>
                       (case copy_client_copyfrom cc log q ls of
                          Some e \<Rightarrow> (Inl e, log @ [CopyFrom q ls])
                        | None \<Rightarrow> (Inr (), log @ [CopyFrom q ls])))))"

section \<open>Dataset facade\<close>

definition no_dataframe_msg :: string where
  "no_dataframe_msg =
     ''You have to create a `Dataset` with a pandas DataFrame in order to upload it to CARTO''"

definition already_exists_msg :: "string \<Rightarrow> string" where
  "already_exists_msg t =
     ''Table with name '' @ t @ '' already exists in CARTO.''
       @ '' Please choose a different `table_name` or use''
       @ '' if_exists='' @ dq @ ''replace'' @ dq @ '' to overwrite it''"

definition upload ::
  "externals \<Rightarrow> carto_context \<Rightarrow> dataset \<Rightarrow> (string \<times> string) option \<Rightarrow> string \<Rightarrow> event list
     \<Rightarrow> (exn + dataset) \<times> event list" where
  "upload ext cc ds with_lonlat if_exists log =
     (case df ds of
        None \<Rightarrow> (Inl (ValueError no_dataframe_msg), log)
      | Some d \<Rightarrow>
         (case Dataset_exists cc ds log of
            (Inl e, log1) \<Rightarrow> (Inl e, log1)
          | (Inr ex, log1) \<Rightarrow>
             (case (if \<not> ex then create_table ext cc ds with_lonlat log1
                    else if if_exists = FAIL
                      then (Inl (NameError (already_exists_msg (table_name ds))), log1)
                    else if if_exists = REPLACE then create_table ext cc ds with_lonlat log1
                    else (Inr (), log1)) of
                (Inl e, log2) \<Rightarrow> (Inl e, log2)
              | (Inr u, log2) \<Rightarrow>
                 (case Dataset_copyfrom ext cc ds with_lonlat log2 of
                    (Inl e, log3) \<Rightarrow> (Inl e, log3)
                  | (Inr u, log3) \<Rightarrow> (Inr ds, log3)))))"

text \<open>\<^verbatim>\<open>isinstance(limit, int)\<close> holds for integers and for booleans.\<close>

fun isinstance_int :: "pyval \<Rightarrow> bool" where
  "isinstance_int (VInt i) = True"
| "isinstance_int (VBool b) = True"
| "isinstance_int v = False"

fun int_value :: "pyval \<Rightarrow> int" where
  "int_value (VInt i) = i"
| "int_value (VBool b) = (if b then 1 else 0)"
| "int_value v = 0"

definition select_query :: "dataset \<Rightarrow> string list \<Rightarrow> string" where
  "select_query ds query_columns =
     ''SELECT '' @ join '', '' query_columns @ '' FROM '' @ dq @ schema ds @ dq @ ''.''
       @ dq @ table_name ds @ dq"

text \<open>\<^verbatim>\<open>_get_read_query\<close>; \<^verbatim>\<open>table_columns\<close> is what \<^verbatim>\<open>get_table_columns\<close> returned.\<close>

definition get_read_query :: "dataset \<Rightarrow> column list option \<Rightarrow> pyval \<Rightarrow> exn + string" where
  "get_read_query ds table_columns limit =
     (case table_columns of
        None \<Rightarrow> Inl not_iterable
      | Some tc \<Rightarrow>
         (let query_columns = filter (\<lambda>n. n \<noteq> ''the_geom_webmercator'') (map name tc);
              query = select_query ds query_columns
          in if limit \<noteq> VNone then
               (if isinstance_int limit \<and> int_value limit \<ge> 0
                  then Inr (query @ '' LIMIT '' @ py_str limit)
                else Inl (ValueError ''`limit` parameter must an integer >= 0''))
             else Inr query))"

definition catalog_query :: "dataset \<Rightarrow> string" where
  "catalog_query ds =
     nl @ ''            SELECT column_name, data_type'' @ nl
       @ ''            FROM information_schema.columns'' @ nl
       @ ''            WHERE table_name = '' @ sq @ table_name ds @ sq
       @ '' AND table_schema = '' @ sq @ schema ds @ sq @ nl
       @ ''        ''"

definition zero_row_query :: "dataset \<Rightarrow> string" where
  "zero_row_query ds =
     nl @ ''                    SELECT *'' @ nl
       @ ''                    FROM '' @ dq @ schema ds @ dq @ ''.'' @ dq @ table_name ds @ dq
       @ '' LIMIT 0'' @ nl
       @ ''                ''"

text \<open>\<^verbatim>\<open>get_columns\<close>; \<^verbatim>\<open>send\<close> is called with its default \<^verbatim>\<open>do_post=True\<close>.\<close>

definition col_query :: "string \<Rightarrow> string" where
  "col_query query = ''SELECT * FROM ('' @ query @ '') _q LIMIT 0''"

definition get_columns :: "carto_context \<Rightarrow> string \<Rightarrow> event list \<Rightarrow> (exn + column list) \<times> event list" where
  "get_columns cc query log =
     (case sql_client_send cc log (col_query query) True of
        Inl e \<Rightarrow> (Inl e, log @ [SqlSend (col_query query) True])
      | Inr table_info \<Rightarrow>
         (Inr (from_sql_api_fields cc (result_fields table_info)),
          log @ [SqlSend (col_query query) True]))"

fun columns_of_rows :: "(string \<times> string) list list \<Rightarrow> exn + column list" where
  "columns_of_rows [] = Inr []"
| "columns_of_rows (c # cs) =
     (case map_of c ''column_name'' of
        None \<Rightarrow> Inl (KeyError ''column_name'')
      | Some n \<Rightarrow>
         (case map_of c ''data_type'' of
            None \<Rightarrow> Inl (KeyError ''data_type'')
          | Some t \<Rightarrow>
             (case columns_of_rows cs of
                Inl e \<Rightarrow> Inl e
              | Inr xs \<Rightarrow> Inr (\<lparr>name = n, pgtype = t\<rparr> # xs))))"

text \<open>
  \<^verbatim>\<open>get_table_columns\<close>: the result is \<open>Some\<close> column list, or \<open>None\<close> when the function
  falls off its end without a \<^verbatim>\<open>return\<close>.
\<close>

definition get_table_columns ::
  "carto_context \<Rightarrow> dataset \<Rightarrow> event list \<Rightarrow> (exn + column list option) \<times> event list" where
  "get_table_columns cc ds log =
     (let query = catalog_query ds; log1 = log @ [SqlSend query True]
      in case sql_client_send cc log query True of
           Inr table_info \<Rightarrow>
             (case columns_of_rows (result_rows table_info) of
                Inl e \<Rightarrow> (Inl e, log1)
              | Inr cs \<Rightarrow> (Inr (Some cs), log1))
         | Inl e \<Rightarrow>
             if is_CartoException e then
               (if exn_str e = ''Access denied'' then
                  (case get_columns cc (zero_row_query ds) log1 of
                     (Inl e', log2) \<Rightarrow> (Inl e', log2)
                   | (Inr cs, log2) \<Rightarrow> (Inr (Some cs), log2))
                else (Inr None, log1))
             else (Inl e, log1))"

definition download ::
  "carto_context \<Rightarrow> dataset \<Rightarrow> pyval \<Rightarrow> bool \<Rightarrow> int \<Rightarrow> event list
     \<Rightarrow> (exn + dataframe) \<times> event list" where
  "download cc ds limit decode_geom_flag retry_times log =
     (case get_table_columns cc ds log of
        (Inl e, log1) \<Rightarrow> (Inl e, log1)
      | (Inr table_columns, log1) \<Rightarrow>
         (case get_read_query ds table_columns limit of
            Inl e \<Rightarrow> (Inl e, log1)
          | Inr query \<Rightarrow>
             (case cc_fetch cc log1 query decode_geom_flag of
                Inl e \<Rightarrow> (Inl e, log1 @ [Fetch query decode_geom_flag])
              | Inr r \<Rightarrow> (Inr r, log1 @ [Fetch query decode_geom_flag]))))"

definition delete :: "carto_context \<Rightarrow> dataset \<Rightarrow> event list \<Rightarrow> (exn + bool) \<times> event list" where
  "delete cc ds log =
     (case Dataset_exists cc ds log of
        (Inl e, log1) \<Rightarrow> (Inl e, log1)
      | (Inr ex, log1) \<Rightarrow>
         if ex then
           (case sql_client_send cc log1 (drop_table_query ds False) True of
              Inl e \<Rightarrow> (Inl e, log1 @ [SqlSend (drop_table_query ds False) True])
            | Inr r \<Rightarrow> (Inr True, log1 @ [SqlSend (drop_table_query ds False) True]))
         else (Inr False, log1))"

section \<open>Read retry wrapper\<close>

definition rate_limited_msg :: "nat \<Rightarrow> string" where
  "rate_limited_msg s = ''Read call rate limited. Waiting '' @ str_nat s @ '' seconds''"

definition exhausted_msg :: string where
  "exhausted_msg =
     ''Read call was rate-limited. ''
       @ ''This usually happens when there are multiple queries being read at the same time.''"

function recursive_read ::
  "carto_context \<Rightarrow> string \<Rightarrow> int \<Rightarrow> event list \<Rightarrow> (exn + string) \<times> event list" where
  "recursive_read cc query retry_times log =
     (case copy_client_copyto_stream cc log query of
        Inr r \<Rightarrow> (Inr r, log @ [CopyTo query])
      | Inl (CartoRateLimitException retry_after m) \<Rightarrow>
          if retry_times > 0 then
            recursive_read cc query (retry_times - 1)
              (log @ [CopyTo query, Warn (rate_limited_msg retry_after), Sleep retry_after,
                      Warn ''Retrying...''])
          else
            (Inl (CartoRateLimitException retry_after m),
             log @ [CopyTo query, Warn exhausted_msg])
      | Inl e \<Rightarrow> (Inl e, log @ [CopyTo query]))"
  by pat_completeness auto
termination
  by (relation "measure (\<lambda>(cc, query, retry_times, log). nat retry_times)") auto

declare recursive_read.simps [simp del]

section \<open>Notions used in the statements\<close>

text \<open>Recognisers of events and of exceptions, to count and to exclude them.\<close>

fun is_CopyTo :: "event \<Rightarrow> bool" where
  "is_CopyTo (CopyTo q) = True"
| "is_CopyTo e = False"

fun is_Sleep :: "event \<Rightarrow> bool" where
  "is_Sleep (Sleep n) = True"
| "is_Sleep e = False"

fun is_BatchSubmit :: "event \<Rightarrow> bool" where
  "is_BatchSubmit (BatchSubmit q) = True"
| "is_BatchSubmit e = False"

fun is_Fetch :: "event \<Rightarrow> bool" where
  "is_Fetch (Fetch q b) = True"
| "is_Fetch e = False"

fun is_NameError :: "exn \<Rightarrow> bool" where
  "is_NameError (NameError m) = True"
| "is_NameError e = False"

text \<open>What one rate-limited attempt of \<^verbatim>\<open>recursive_read\<close> adds to the log.\<close>

definition retry_events :: "string \<Rightarrow> nat \<Rightarrow> event list" where
  "retry_events q retry_after =
     [CopyTo q, Warn (rate_limited_msg retry_after), Sleep retry_after, Warn ''Retrying...'']"

text \<open>The database type of a column of the frame: \<^verbatim>\<open>_dtypes2pg(df.dtypes[orig])\<close>.\<close>

definition pg_of :: "dataframe \<Rightarrow> string \<Rightarrow> string" where
  "pg_of d orig = (case map_of (dtypes d) orig of Some dtype \<Rightarrow> dtypes2pg dtype | None \<Rightarrow> [])"

text \<open>The stream of lines that \<^verbatim>\<open>_copyfrom\<close> hands to the bulk-copy transport.\<close>

definition copy_lines :: "externals \<Rightarrow> dataframe \<Rightarrow> (string \<times> string) option \<Rightarrow> string list" where
  "copy_lines ext d with_lonlat =
     fst (yielded (Dataset_rows ext d (filter (\<lambda>c. c \<noteq> ''cartodb_id'') (columns d)) with_lonlat
            (get_geom_col_name ext d)))"

text \<open>The text of one field: empty for a null value, \<^verbatim>\<open>str\<close> of the value otherwise.\<close>

definition field_text :: "pyval \<Rightarrow> string" where
  "field_text v = (if isnull v then [] else py_str v)"

text \<open>The columns \<^verbatim>\<open>_rows\<close> does not skip: in lon/lat mode the reserved geometry names go.\<close>

definition kept :: "externals \<Rightarrow> (string \<times> string) option \<Rightarrow> string list \<Rightarrow> string list" where
  "kept ext with_lonlat cols =
     (if with_lonlat \<noteq> None then filter (\<lambda>c. c \<notin> set (SUPPORTED_GEOM_COL_NAMES ext)) cols else cols)"

text \<open>The fields of a line before its geometry field, each with its pipe.\<close>

definition fields_text :: "(string \<Rightarrow> pyval) \<Rightarrow> string option \<Rightarrow> string list \<Rightarrow> string" where
  "fields_text row geom_col cols =
     concat (map (\<lambda>c. field_text (row c) @ ''|'') (filter (\<lambda>c. Some c \<noteq> geom_col) cols))"

text \<open>The value a variable of the loop holds after the columns: that of the last column that set it.\<close>

definition picked :: "(string \<Rightarrow> pyval) \<Rightarrow> string option \<Rightarrow> string list \<Rightarrow> pyval \<Rightarrow> pyval" where
  "picked row target cols old =
     (case target of None \<Rightarrow> old | Some c \<Rightarrow> if c \<in> set cols then row c else old)"

section \<open>Concrete instances\<close>

text \<open>
  An instance of the library calls: \<^verbatim>\<open>unhexlify\<close> as it is, and loaders that know one
  point, by its WKT, its hex WKB and its binary WKB.
\<close>

fun hex_val :: "char \<Rightarrow> nat option" where
  "hex_val c =
     (let n = (of_char c :: nat) in
      if 48 \<le> n \<and> n \<le> 57 then Some (n - 48)
      else if 65 \<le> n \<and> n \<le> 70 then Some (n - 55)
      else if 97 \<le> n \<and> n \<le> 102 then Some (n - 87)
      else None)"

fun unhex :: "string \<Rightarrow> string option" where
  "unhex [] = Some []"
| "unhex [c] = None"
| "unhex (a # b # cs) =
     (case (hex_val a, hex_val b, unhex cs) of
        (Some h, Some l, Some r) \<Rightarrow> Some (char_of (16 * h + l) # r)
      | other \<Rightarrow> None)"

fun demo_unhexlify :: "pyval \<Rightarrow> pyval option" where
  "demo_unhexlify (VStr s) = map_option VBytes (unhex s)"
| "demo_unhexlify (VBytes b) = map_option VBytes (unhex b)"
| "demo_unhexlify v = None"

text \<open>
  The point at (1,2) as the geometry library presents it: its WKT text has a space
  after the type name.
\<close>

definition point12 :: geometry where
  "point12 = \<lparr>geom_type = ''Point'', wkt = ''POINT (1 2)'', nonempty = True\<rparr>"

definition point12_hex :: string where
  "point12_hex = ''0101000000000000000000F03F0000000000000040''"

definition point12_wkb :: string where
  "point12_wkb =
     [CHR 0x01, CHR 0x01, CHR 0x00, CHR 0x00, CHR 0x00,
      CHR 0x00, CHR 0x00, CHR 0x00, CHR 0x00, CHR 0x00, CHR 0x00, CHR 0xF0, CHR 0x3F,
      CHR 0x00, CHR 0x00, CHR 0x00, CHR 0x00, CHR 0x00, CHR 0x00, CHR 0x00, CHR 0x40]"

definition demo_wkb_loads :: "pyval \<Rightarrow> bool \<Rightarrow> geometry option" where
  "demo_wkb_loads v hex =
     (if hex then (if v = VStr point12_hex \<or> v = VBytes point12_hex then Some point12 else None)
      else (if v = VBytes point12_wkb then Some point12 else None))"

definition demo_wkt_loads :: "pyval \<Rightarrow> geometry option" where
  "demo_wkt_loads v =
     (if v = VStr ''POINT(1 2)'' \<or> v = VStr ''POINT (1 2)'' then Some point12 else None)"

definition demo_ext :: externals where
  "demo_ext =
     \<lparr>SUPPORTED_GEOM_COL_NAMES = [''geom'', ''the_geom'', ''geometry''],
      RESERVED_COLUMN_NAMES = [''geom'', ''the_geom'', ''geometry'', ''the_geom_webmercator'', ''cartodb_id''],
      normalize_names = map lower,
      normalize_name = lower,
      shapely_import = None,
      unhexlify = demo_unhexlify,
      wkb_loads = demo_wkb_loads,
      wkt_loads = demo_wkt_loads\<rparr>"

definition no_shapely_ext :: externals where
  "no_shapely_ext = demo_ext\<lparr>shapely_import := Some ''No module named shapely''\<rparr>"

text \<open>The row id=1, name=A, with a point as its geometry, and its frame and Dataset.\<close>

definition demo_row :: "string \<Rightarrow> pyval" where
  "demo_row = (\<lambda>c. if c = ''id'' then VInt 1 else if c = ''name'' then VStr ''A'' else VGeom point12)"

definition demo_df :: dataframe where
  "demo_df =
     \<lparr>columns = [''id'', ''name'', ''the_geom''],
      dtypes = [(''id'', ''int64''), (''name'', ''object''), (''the_geom'', ''object'')],
      rows = [demo_row],
      geometry_column_name = None\<rparr>"

definition demo_ds :: dataset where
  "demo_ds =
     \<lparr>table_name = ''t'', schema = ''public'', df = Some demo_df,
      normalized_column_names = Some [(''id'', ''id''), (''name'', ''name'')]\<rparr>"

definition empty_df :: dataframe where
  "empty_df = \<lparr>columns = [], dtypes = [], rows = [], geometry_column_name = None\<rparr>"

text \<open>A remote service on which every call succeeds.\<close>

definition demo_cc :: carto_context where
  "demo_cc =
     \<lparr>sql_client_send = (\<lambda>log q p. Inr \<lparr>result_fields = [], result_rows = []\<rparr>),
      create_and_wait_for_completion = (\<lambda>log q. Inr [(''status'', VStr ''done'')]),
      copy_client_copyfrom = (\<lambda>log q ls. None),
      copy_client_copyto_stream = (\<lambda>log q. Inr ''data''),
      cc_fetch = (\<lambda>log q b. Inr empty_df),
      from_sql_api_fields = map (\<lambda>(n, t). \<lparr>name = n, pgtype = t\<rparr>),
      is_org = False,
      creds_username = ''user''\<rparr>"

text \<open>A bulk-read transport that is rate limited on its first two calls, then succeeds.\<close>

definition twice_limited_cc :: carto_context where
  "twice_limited_cc =
     demo_cc\<lparr>copy_client_copyto_stream :=
       (\<lambda>log q. if length (filter is_CopyTo log) < 2
                 then Inl (CartoRateLimitException 2 ''Rate limit exceeded'')
                 else Inr ''data'')\<rparr>"

text \<open>A service whose SQL calls all raise the given error, and one whose batch job fails.\<close>

definition failing_cc :: "exn \<Rightarrow> carto_context" where
  "failing_cc e = demo_cc\<lparr>sql_client_send := (\<lambda>log q p. Inl e)\<rparr>"

definition failed_job_cc :: carto_context where
  "failed_job_cc =
     demo_cc\<lparr>create_and_wait_for_completion :=
       (\<lambda>log q. Inr [(''status'', VStr ''failed''), (''failed_reason'', VStr ''out of quota'')])\<rparr>"

definition demo_create :: string where
  "demo_create = ''CREATE TABLE t (id integer, name text, the_geom geometry(Point, 4326))''"

text \<open>
  A service whose catalog is closed to the caller: the \<^verbatim>\<open>information_schema\<close> query
  raises the given error, every other query answers with two fields.
\<close>

definition catalog_error_cc :: "dataset \<Rightarrow> exn \<Rightarrow> carto_context" where
  "catalog_error_cc ds e =
     demo_cc\<lparr>sql_client_send :=
       (\<lambda>log q p. if q = catalog_query ds then Inl e
                   else Inr \<lparr>result_fields = [(''cartodb_id'', ''number''), (''the_geom'', ''geometry'')],
                             result_rows = []\<rparr>)\<rparr>"

definition demo_columns :: "column list" where
  "demo_columns =
     [\<lparr>name = ''cartodb_id'', pgtype = ''integer''\<rparr>,
      \<lparr>name = ''the_geom'', pgtype = ''USER-DEFINED''\<rparr>,
      \<lparr>name = ''the_geom_webmercator'', pgtype = ''USER-DEFINED''\<rparr>]"

text \<open>A service whose catalog lists three columns for every table.\<close>

definition catalog_cc :: carto_context where
  "catalog_cc =
     demo_cc\<lparr>sql_client_send :=
       (\<lambda>log q p. Inr \<lparr>result_fields = [],
                         result_rows =
                           [[(''column_name'', ''cartodb_id''), (''data_type'', ''integer'')],
                            [(''column_name'', ''the_geom''), (''data_type'', ''USER-DEFINED'')],
                            [(''column_name'', ''the_geom_webmercator''), (''data_type'', ''USER-DEFINED'')]]\<rparr>)\<rparr>"

text \<open>A frame with a column of each mapped dtype and a polygon as its geometry.\<close>

definition square :: geometry where
  "square =
     \<lparr>geom_type = ''Polygon'', wkt = ''POLYGON ((0 0, 1 0, 1 1, 0 1, 0 0))'', nonempty = True\<rparr>"

definition shop_df :: dataframe where
  "shop_df =
     \<lparr>columns = [''id'', ''name'', ''price'', ''open'', ''since'', ''the_geom''],
      dtypes = [(''id'', ''int64''), (''name'', ''object''), (''price'', ''float64''),
                (''open'', ''bool''), (''since'', ''datetime64[ns]''), (''the_geom'', ''object'')],
      rows = [\<lambda>c. if c = ''id'' then VInt 1 else if c = ''name'' then VStr ''A''
                   else if c = ''open'' then VBool True
                   else if c = ''the_geom'' then VGeom square else VNaN],
      geometry_column_name = None\<rparr>"

definition shop_ds :: dataset where
  "shop_ds =
     \<lparr>table_name = ''shops'', schema = ''public'', df = Some shop_df,
      normalized_column_names =
        Some [(''id'', ''id''), (''name'', ''name''), (''price'', ''price''), (''open'', ''open''),
              (''since'', ''since'')]\<rparr>"

text \<open>An empty geometry is false under \<^verbatim>\<open>if geom:\<close>.\<close>

definition empty_geom :: geometry where
  "empty_geom =
     \<lparr>geom_type = ''GeometryCollection'', wkt = ''GEOMETRYCOLLECTION EMPTY'', nonempty = False\<rparr>"

definition empty_row :: "string \<Rightarrow> pyval" where
  "empty_row = (\<lambda>c. if c = ''id'' then VInt 1 else if c = ''name'' then VStr ''A'' else VGeom empty_geom)"

text \<open>The row lon=3, lat=4 of a frame without a geometry column.\<close>

definition lonlat_row :: "string \<Rightarrow> pyval" where
  "lonlat_row = (\<lambda>c. if c = ''lon'' then VInt 3 else if c = ''lat'' then VInt 4 else VNaN)"

definition lonlat_df :: dataframe where
  "lonlat_df =
     \<lparr>columns = [''lon'', ''lat''], dtypes = [(''lon'', ''int64''), (''lat'', ''int64'')],
      rows = [lonlat_row], geometry_column_name = None\<rparr>"


section \<open>Verified properties\<close>

lemma unhex_point12: "unhex point12_hex = Some point12_wkb"
  by code_simp

lemma unhex_point12_wkb: "unhex point12_wkb = None"
  by (simp add: point12_wkb_def)

lemma unhex_wkt: "unhex ''POINT(1 2)'' = None"
  by simp

lemmas demo_ext_simps = demo_ext_def no_shapely_ext_def demo_wkb_loads_def demo_wkt_loads_def

subsection \<open>Geometry codec\<close>

text \<open>
  C5. \<^verbatim>\<open>_decode_geom\<close> returns its input unchanged when the input has a \<^verbatim>\<open>geom_type\<close>
  attribute (this test comes before the imports, so it holds with or without shapely).
  With shapely importable it returns \<^verbatim>\<open>None\<close> for \<^verbatim>\<open>None\<close>, for the empty string and the
  empty bytes (for every false input without \<^verbatim>\<open>geom_type\<close>), and for every input on
  which all five attempts fail, and it never raises. When the import of shapely fails,
  every other input raises an \<^verbatim>\<open>ImportError\<close> whose message names the package
  \<^verbatim>\<open>shapely\<close> and quotes the original error.
\<close>

theorem decode_geom_never_raises:
  "(has_geom_type v \<longrightarrow> decode_geom ext v = Inr v) \<and>
   (shapely_import ext = None \<longrightarrow>
      (v \<in> {VNone, VStr [], VBytes []} \<longrightarrow> decode_geom ext v = Inr VNone) \<and>
      (\<not> has_geom_type v \<and> \<not> py_truthy v \<longrightarrow> decode_geom ext v = Inr VNone) \<and>
      (\<not> has_geom_type v \<and> (\<forall>a \<in> set attempt_order. attempt_result ext a v = None) \<longrightarrow>
         decode_geom ext v = Inr VNone) \<and>
      (\<exists>r. decode_geom ext v = Inr r)) \<and>
   (\<forall>err. shapely_import ext = Some err \<and> \<not> has_geom_type v \<longrightarrow>
      decode_geom ext v =
        Inl (ImportError
          (''The Python package `shapely` needs to be installed to encode or decode geometries. (''
             @ err @ '')'')))"
  unfolding decode_geom_def decode_geom_traced_def attempt_order_def shapely_missing_msg_def
  by (auto split: option.splits)

text \<open>
  Witness for C5: a geometry object, the empty string, two bytes that are no geometry
  in any encoding, and a WKT string when shapely is missing.
\<close>

theorem decode_geom_never_raises_witness:
  "decode_geom demo_ext (VGeom point12) = Inr (VGeom point12) \<and>
   decode_geom demo_ext (VStr []) = Inr VNone \<and>
   decode_geom demo_ext (VBytes [CHR 0x01, CHR 0xFF]) = Inr VNone \<and>
   decode_geom no_shapely_ext (VStr ''POINT(1 2)'') =
     Inl (ImportError
       (''The Python package `shapely` needs to be installed to encode or decode geometries. (''
          @ ''No module named shapely'' @ '')''))"
proof -
  have a: "\<forall>a \<in> set attempt_order. attempt_result demo_ext a (VBytes [CHR 0x01, CHR 0xFF]) = None"
    by (simp add: attempt_order_def demo_ext_simps point12_hex_def point12_wkb_def)
  have b: "shapely_import demo_ext = None"
    by (simp add: demo_ext_simps)
  have c: "shapely_import no_shapely_ext = Some ''No module named shapely''"
    by (simp add: demo_ext_simps)
  show ?thesis
    using decode_geom_never_raises [of "VGeom point12" demo_ext]
      decode_geom_never_raises [of "VStr []" demo_ext]
      decode_geom_never_raises [of "VBytes [CHR 0x01, CHR 0xFF]" demo_ext]
      decode_geom_never_raises [of "VStr ''POINT(1 2)''" no_shapely_ext]
      a b c
    by simp
qed

text \<open>
  C6, amended. For an input without \<^verbatim>\<open>geom_type\<close> that is true under \<^verbatim>\<open>if ewkb:\<close>, the
  attempts are made in the order: hex-decoded input (\<^verbatim>\<open>ba.unhexlify\<close>) read as binary
  WKB, hex-decoded input read as hex WKB, the input read as hex WKB, the input read as
  raw binary WKB, the input read as WKT. The attempts made are a non-empty prefix of
  that list, every attempt but the last one made has failed, the result is the
  geometry of the last attempt made (or \<^verbatim>\<open>None\<close> when it failed too), and the last
  attempt made fails only when all five were made.
\<close>

theorem decode_geom_attempts_in_order:
  assumes "\<not> has_geom_type v" and "shapely_import ext = None" and "py_truthy v"
  shows "prefix (snd (decode_geom_traced ext v)) [UnhexWkb, UnhexWkbHex, WkbHex, Wkb, Wkt] \<and>
         snd (decode_geom_traced ext v) \<noteq> [] \<and>
         (\<forall>a \<in> set (butlast (snd (decode_geom_traced ext v))). attempt_result ext a v = None) \<and>
         decode_geom ext v =
           (case attempt_result ext (last (snd (decode_geom_traced ext v))) v of
              Some g \<Rightarrow> Inr (VGeom g)
            | None \<Rightarrow> Inr VNone) \<and>
         (attempt_result ext (last (snd (decode_geom_traced ext v))) v = None \<longrightarrow>
            snd (decode_geom_traced ext v) = [UnhexWkb, UnhexWkbHex, WkbHex, Wkb, Wkt])"
  using assms unfolding decode_geom_def decode_geom_traced_def
  by (auto split: option.splits)

text \<open>Witness for C6: the hex WKB of a point is decoded by the first attempt.\<close>

theorem decode_geom_attempts_in_order_witness:
  "snd (decode_geom_traced demo_ext (VStr point12_hex)) = [UnhexWkb] \<and>
   decode_geom demo_ext (VStr point12_hex) = Inr (VGeom point12)"
proof -
  have h: "\<not> has_geom_type (VStr point12_hex)" "shapely_import demo_ext = None"
    "py_truthy (VStr point12_hex)"
    by (simp_all add: demo_ext_simps point12_hex_def)
  have r: "attempt_result demo_ext UnhexWkb (VStr point12_hex) = Some point12"
    by (simp add: demo_ext_simps unhex_point12)
  from decode_geom_attempts_in_order [OF h]
  have p: "prefix (snd (decode_geom_traced demo_ext (VStr point12_hex))) [UnhexWkb, UnhexWkbHex, WkbHex, Wkb, Wkt]"
    and ne: "snd (decode_geom_traced demo_ext (VStr point12_hex)) \<noteq> []"
    and bl: "\<forall>a \<in> set (butlast (snd (decode_geom_traced demo_ext (VStr point12_hex)))). attempt_result demo_ext a (VStr point12_hex) = None"
    and res: "decode_geom demo_ext (VStr point12_hex) =
           (case attempt_result demo_ext (last (snd (decode_geom_traced demo_ext (VStr point12_hex)))) (VStr point12_hex) of
              Some g \<Rightarrow> Inr (VGeom g)
            | None \<Rightarrow> Inr VNone)"
    by blast+
  obtain t ts where tr: "snd (decode_geom_traced demo_ext (VStr point12_hex)) = t # ts"
    using ne by (cases "snd (decode_geom_traced demo_ext (VStr point12_hex))") auto
  have t: "t = UnhexWkb" using p tr by simp
  have "ts = []"
  proof (rule ccontr)
    assume "ts \<noteq> []"
    then have "t \<in> set (butlast (t # ts))" by simp
    with bl tr have "attempt_result demo_ext t (VStr point12_hex) = None" by simp
    with r t show False by simp
  qed
  with tr t res r show ?thesis by simp
qed

text \<open>
  Counterexample to C6 as stated (raw binary WKB first): on the raw binary WKB of a
  point, which the raw binary attempt decodes, three hex attempts are made before it.
\<close>

theorem decode_geom_raw_binary_first_counterexample:
  "attempt_result demo_ext Wkb (VBytes point12_wkb) = Some point12 \<and>
   snd (decode_geom_traced demo_ext (VBytes point12_wkb)) = [UnhexWkb, UnhexWkbHex, WkbHex, Wkb]"
  by (simp add: decode_geom_traced_def demo_ext_simps unhex_point12_wkb point12_hex_def point12_wkb_def)

subsection \<open>Read retry wrapper\<close>

text \<open>
  C3. \<^verbatim>\<open>recursive_read\<close> returns the transport's result when \<^verbatim>\<open>copyto_stream\<close> succeeds.
  On a rate-limit error with \<^verbatim>\<open>retry_times > 0\<close> it warns, sleeps \<^verbatim>\<open>err.retry_after\<close>,
  warns again and continues as the call with \<^verbatim>\<open>retry_times - 1\<close>. With no attempt left it
  warns and re-raises the same error, without a sleep. With a transport that is rate
  limited (\<^verbatim>\<open>retry_after = 2\<close>) on two calls and then succeeds, and \<^verbatim>\<open>retry_times = 3\<close>, it
  sleeps twice, 2 each time, and returns the success. The function is total: its
  recursion ends because \<^verbatim>\<open>retry_times\<close> decreases.
\<close>

theorem recursive_read_retries:
  "(\<forall>r. copy_client_copyto_stream cc log q = Inr r \<longrightarrow>
      recursive_read cc q n log = (Inr r, log @ [CopyTo q])) \<and>
   (\<forall>ra m. copy_client_copyto_stream cc log q = Inl (CartoRateLimitException ra m) \<and> n > 0 \<longrightarrow>
      recursive_read cc q n log =
        recursive_read cc q (n - 1)
          (log @ [CopyTo q, Warn (rate_limited_msg ra), Sleep ra, Warn ''Retrying...''])) \<and>
   (\<forall>ra m. copy_client_copyto_stream cc log q = Inl (CartoRateLimitException ra m) \<and> n \<le> 0 \<longrightarrow>
      recursive_read cc q n log =
        (Inl (CartoRateLimitException ra m), log @ [CopyTo q, Warn exhausted_msg])) \<and>
   (\<forall>m1 m2 r.
      copy_client_copyto_stream cc log q = Inl (CartoRateLimitException 2 m1) \<and>
      copy_client_copyto_stream cc (log @ retry_events q 2) q = Inl (CartoRateLimitException 2 m2) \<and>
      copy_client_copyto_stream cc (log @ retry_events q 2 @ retry_events q 2) q = Inr r \<and>
      n = 3 \<longrightarrow>
      recursive_read cc q n log = (Inr r, log @ retry_events q 2 @ retry_events q 2 @ [CopyTo q]) \<and>
      filter is_Sleep (retry_events q 2 @ retry_events q 2 @ [CopyTo q]) = [Sleep 2, Sleep 2])"
proof -
  have a: "\<forall>r. copy_client_copyto_stream cc log q = Inr r \<longrightarrow>
      recursive_read cc q n log = (Inr r, log @ [CopyTo q])" for log n
    by (simp add: recursive_read.simps [of cc q n log])
  have b: "\<forall>ra m. copy_client_copyto_stream cc log q = Inl (CartoRateLimitException ra m) \<and> n > 0 \<longrightarrow>
      recursive_read cc q n log =
        recursive_read cc q (n - 1)
          (log @ [CopyTo q, Warn (rate_limited_msg ra), Sleep ra, Warn ''Retrying...''])" for log n
    by (simp add: recursive_read.simps [of cc q n log])
  have c: "\<forall>ra m. copy_client_copyto_stream cc log q = Inl (CartoRateLimitException ra m) \<and> n \<le> 0 \<longrightarrow>
      recursive_read cc q n log =
        (Inl (CartoRateLimitException ra m), log @ [CopyTo q, Warn exhausted_msg])"
    by (simp add: recursive_read.simps [of cc q n log])
  have d: "recursive_read cc q n log = (Inr r, log @ retry_events q 2 @ retry_events q 2 @ [CopyTo q])"
    if h: "copy_client_copyto_stream cc log q = Inl (CartoRateLimitException 2 m1)"
      "copy_client_copyto_stream cc (log @ retry_events q 2) q = Inl (CartoRateLimitException 2 m2)"
      "copy_client_copyto_stream cc (log @ retry_events q 2 @ retry_events q 2) q = Inr r"
      "n = 3" for m1 m2 r
  proof -
    have "recursive_read cc q 3 log = recursive_read cc q 2 (log @ retry_events q 2)"
      using b [of log 3] h(1) by (simp add: retry_events_def)
    also have "\<dots> = recursive_read cc q 1 (log @ retry_events q 2 @ retry_events q 2)"
      using b [of "log @ retry_events q 2" 2] h(2) by (simp add: retry_events_def)
    also have "\<dots> = (Inr r, log @ retry_events q 2 @ retry_events q 2 @ [CopyTo q])"
      using a [of "log @ retry_events q 2 @ retry_events q 2" 1] h(3) by simp
    finally show ?thesis using h(4) by simp
  qed
  have e: "filter is_Sleep (retry_events q 2 @ retry_events q 2 @ [CopyTo q]) = [Sleep 2, Sleep 2]"
    by (simp add: retry_events_def)
  show ?thesis using a b c d e by blast
qed

text \<open>Witness for C3: the transport of the example, with three attempts and with none.\<close>

theorem recursive_read_retries_witness:
  "recursive_read twice_limited_cc ''q'' 3 [] =
     (Inr ''data'', retry_events ''q'' 2 @ retry_events ''q'' 2 @ [CopyTo ''q'']) \<and>
   recursive_read twice_limited_cc ''q'' 0 [] =
     (Inl (CartoRateLimitException 2 ''Rate limit exceeded''), [CopyTo ''q'', Warn exhausted_msg])"
proof -
  have 1: "copy_client_copyto_stream twice_limited_cc [] ''q'' =
             Inl (CartoRateLimitException 2 ''Rate limit exceeded'')"
    by (simp add: twice_limited_cc_def)
  have 2: "copy_client_copyto_stream twice_limited_cc ([] @ retry_events ''q'' 2) ''q'' =
             Inl (CartoRateLimitException 2 ''Rate limit exceeded'')"
    by (simp add: twice_limited_cc_def retry_events_def)
  have 3: "copy_client_copyto_stream twice_limited_cc
             ([] @ retry_events ''q'' 2 @ retry_events ''q'' 2) ''q'' = Inr ''data''"
    by (simp add: twice_limited_cc_def retry_events_def)
  have a: "recursive_read twice_limited_cc ''q'' 3 [] =
     (Inr ''data'', retry_events ''q'' 2 @ retry_events ''q'' 2 @ [CopyTo ''q''])"
    using recursive_read_retries [of twice_limited_cc "[]" "''q''" 3, THEN conjunct2,
        THEN conjunct2, THEN conjunct2, rule_format,
        of "''Rate limit exceeded''" "''Rate limit exceeded''" "''data''"] 1 2 3
    by simp
  have b: "recursive_read twice_limited_cc ''q'' 0 [] =
     (Inl (CartoRateLimitException 2 ''Rate limit exceeded''), [CopyTo ''q'', Warn exhausted_msg])"
    using recursive_read_retries [of twice_limited_cc "[]" "''q''" 0, THEN conjunct2,
        THEN conjunct2, THEN conjunct1, rule_format, of 2 "''Rate limit exceeded''"] 1
    by simp
  show ?thesis using a b by simp
qed

subsection \<open>Existence probe\<close>

text \<open>
  C4. \<^verbatim>\<open>exists()\<close> sends \<^verbatim>\<open>EXPLAIN SELECT * FROM "<table>"\<close> through \<^verbatim>\<open>sql_client.send\<close> with
  \<^verbatim>\<open>do_post=False\<close>. It returns \<^verbatim>\<open>True\<close> when the call succeeds. When the call raises a
  \<^verbatim>\<open>CartoException\<close> (of any cause, a rate-limit error included) it returns \<^verbatim>\<open>False\<close>,
  raises nothing, and the only other effect is the debug print of the error.
\<close>

theorem exists_probe:
  "(\<forall>r. sql_client_send cc log (''EXPLAIN SELECT * FROM '' @ dq @ table_name ds @ dq) False = Inr r \<longrightarrow>
      Dataset_exists cc ds log =
        (Inr True, log @ [SqlSend (''EXPLAIN SELECT * FROM '' @ dq @ table_name ds @ dq) False])) \<and>
   (\<forall>e. sql_client_send cc log (''EXPLAIN SELECT * FROM '' @ dq @ table_name ds @ dq) False = Inl e \<and>
        is_CartoException e \<longrightarrow>
      Dataset_exists cc ds log =
        (Inr False,
         log @ [SqlSend (''EXPLAIN SELECT * FROM '' @ dq @ table_name ds @ dq) False, DebugPrint e]))"
  by (simp add: Dataset_exists_def exists_query_def)

text \<open>Witness for C4: a service that answers, one that fails, one that is rate limited.\<close>

theorem exists_probe_witness:
  "Dataset_exists demo_cc demo_ds [] =
     (Inr True, [SqlSend (''EXPLAIN SELECT * FROM '' @ dq @ ''t'' @ dq) False]) \<and>
   Dataset_exists (failing_cc (CartoException ''syntax error'')) demo_ds [] =
     (Inr False,
      [SqlSend (''EXPLAIN SELECT * FROM '' @ dq @ ''t'' @ dq) False,
       DebugPrint (CartoException ''syntax error'')]) \<and>
   Dataset_exists (failing_cc (CartoRateLimitException 5 ''Rate limit exceeded'')) demo_ds [] =
     (Inr False,
      [SqlSend (''EXPLAIN SELECT * FROM '' @ dq @ ''t'' @ dq) False,
       DebugPrint (CartoRateLimitException 5 ''Rate limit exceeded'')])"
  using exists_probe [of demo_cc "[]" demo_ds]
    exists_probe [of "failing_cc (CartoException ''syntax error'')" "[]" demo_ds]
    exists_probe [of "failing_cc (CartoRateLimitException 5 ''Rate limit exceeded'')" "[]" demo_ds]
  by (simp add: demo_cc_def failing_cc_def demo_ds_def)

lemma lower_demo: "lower ''id'' = ''id''" "lower ''name'' = ''name''" "lower ''the_geom'' = ''the_geom''"
  by (simp_all add: lower_def lower_char_def)

lemma demo_geom_col_name: "get_geom_col_name demo_ext demo_df = Some ''the_geom''"
  by (simp add: get_geom_col_name_def demo_df_def demo_ext_def lower_demo)

lemma demo_first_not_null: "first_not_null_value demo_df ''the_geom'' = Inr (VGeom point12)"
  by (simp add: first_not_null_value_def demo_df_def demo_row_def)

lemma demo_geom_col_type: "get_geom_col_type demo_ext demo_df = (Inr (Some ''Point''), [])"
  by (simp add: get_geom_col_type_def demo_geom_col_name demo_first_not_null decode_geom_def
      decode_geom_traced_def point12_def)

lemma demo_create_table_query: "create_table_query demo_ext demo_ds None = (Inr demo_create, [])"
  by (simp add: create_table_query_def demo_ds_def demo_geom_col_type)
     (simp add: demo_df_def col_def_def dtypes2pg_def geom_col_def_def demo_create_def)

lemma get_geom_col_type_warns:
  "snd (get_geom_col_type ext d) = [] \<or> snd (get_geom_col_type ext d) = [Warn ''Dataset with null geometries'']"
  by (simp add: get_geom_col_type_def split: option.splits sum.splits exn.splits pyval.splits)

lemma create_table_query_warns:
  "filter is_BatchSubmit (snd (create_table_query ext ds wl)) = []"
proof -
  have "filter is_BatchSubmit w = []" if "get_geom_col_type ext d = (r, w)" for d r w
    using get_geom_col_type_warns [of ext d] that by auto
  then show ?thesis
    by (auto simp: create_table_query_def Let_def split: option.splits sum.splits prod.splits)
qed

subsection \<open>Table creation\<close>

text \<open>
  \<^verbatim>\<open>_create_table\<close> submits one batch (drop, create, cartodbfy) and waits for it. When
  the job's \<^verbatim>\<open>status\<close> is \<^verbatim>\<open>'done'\<close> it raises nothing. When the status is anything else
  and the job carries a \<^verbatim>\<open>failed_reason\<close>, it raises
  \<^verbatim>\<open>CartoException('Cannot create table: <failed_reason>.')\<close>. In both cases exactly one
  batch has been submitted: a failure is not retried.
\<close>

theorem create_table_job_status:
  assumes "create_table_query ext ds wl = (Inr create, warns)"
    and "create_and_wait_for_completion cc (log @ warns) (create_batch cc ds create) = Inr job"
    and "map_of job ''status'' = Some st"
  shows "(st = VStr ''done'' \<longrightarrow>
           create_table ext cc ds wl log =
             (Inr (), log @ warns @ [BatchSubmit (create_batch cc ds create)])) \<and>
         (\<forall>r. st \<noteq> VStr ''done'' \<and> map_of job ''failed_reason'' = Some r \<longrightarrow>
           create_table ext cc ds wl log =
             (Inl (CartoException (''Cannot create table: '' @ py_str r @ ''.'')),
              log @ warns @ [BatchSubmit (create_batch cc ds create)])) \<and>
         length (filter is_BatchSubmit (snd (create_table ext cc ds wl log))) =
           length (filter is_BatchSubmit log) + 1"
proof -
  have w: "filter is_BatchSubmit warns = []"
    using create_table_query_warns [of ext ds wl] assms(1) by simp
  show ?thesis
    using assms w by (simp add: create_table_def Let_def split: option.splits)
qed

text \<open>On a job that failed for lack of quota, and on a job that is done.\<close>

theorem create_table_job_status_witness:
  "create_table demo_ext failed_job_cc demo_ds None [] =
     (Inl (CartoException ''Cannot create table: out of quota.''),
      [BatchSubmit (create_batch failed_job_cc demo_ds demo_create)]) \<and>
   create_table demo_ext demo_cc demo_ds None [] =
     (Inr (), [BatchSubmit (create_batch demo_cc demo_ds demo_create)])"
proof -
  have 1: "create_and_wait_for_completion failed_job_cc ([] @ [])
             (create_batch failed_job_cc demo_ds demo_create) =
           Inr [(''status'', VStr ''failed''), (''failed_reason'', VStr ''out of quota'')]"
    by (simp add: failed_job_cc_def)
  have 2: "map_of [(''status'', VStr ''failed''), (''failed_reason'', VStr ''out of quota'')] ''status''
             = Some (VStr ''failed'')"
    by simp
  have 3: "create_and_wait_for_completion demo_cc ([] @ [])
             (create_batch demo_cc demo_ds demo_create) = Inr [(''status'', VStr ''done'')]"
    by (simp add: demo_cc_def)
  have 4: "map_of [(''status'', VStr ''done'')] ''status'' = Some (VStr ''done'')"
    by simp
  show ?thesis
    using create_table_job_status [OF demo_create_table_query 1 2]
      create_table_job_status [OF demo_create_table_query 3 4]
    by simp
qed

lemma catalog_query_neq_col_query: "catalog_query ds \<noteq> col_query q"
  by (simp add: catalog_query_def col_query_def nl_def)

lemma get_table_columns_log:
  "snd (get_table_columns cc ds log) = log @ [SqlSend (catalog_query ds) True] \<or>
   snd (get_table_columns cc ds log) =
     log @ [SqlSend (catalog_query ds) True, SqlSend (col_query (zero_row_query ds)) True]"
  by (simp add: get_table_columns_def get_columns_def Let_def split: sum.splits prod.splits)

text \<open>
  C8, as the code has it. \<^verbatim>\<open>Dataset.create_from_query\<close> submits the same kind of batch
  (drop, create from the query, cartodbfy) and drops the job it gets back. On a
  service whose job reports the status \<^verbatim>\<open>'failed'\<close> with the reason \<^verbatim>\<open>out of quota\<close> it
  raises nothing and returns the new Dataset, where \<^verbatim>\<open>_create_table\<close> on the same service
  raises the \<^verbatim>\<open>CartoException\<close> with that reason.
\<close>

theorem create_from_query_ignores_failed_job:
  "create_and_wait_for_completion failed_job_cc []
     (''BEGIN; DROP TABLE IF EXISTS t; CREATE TABLE t AS (SELECT 1); SELECT CDB_CartodbfyTable(''
        @ sq @ ''public'' @ sq @ '', '' @ sq @ ''t'' @ sq @ ''); COMMIT;'') =
     Inr [(''status'', VStr ''failed''), (''failed_reason'', VStr ''out of quota'')] \<and>
   create_from_query demo_ext failed_job_cc ''SELECT 1'' ''t'' [] =
     (Inr \<lparr>table_name = ''t'', schema = ''public'', df = None, normalized_column_names = None\<rparr>,
      [BatchSubmit
         (''BEGIN; DROP TABLE IF EXISTS t; CREATE TABLE t AS (SELECT 1); SELECT CDB_CartodbfyTable(''
            @ sq @ ''public'' @ sq @ '', '' @ sq @ ''t'' @ sq @ ''); COMMIT;'')]) \<and>
   fst (create_table demo_ext failed_job_cc demo_ds None []) =
     Inl (CartoException ''Cannot create table: out of quota.'')"
proof -
  have l: "lower ''t'' = ''t''"
    by (simp add: lower_def lower_char_def)
  have a: "create_from_query demo_ext failed_job_cc ''SELECT 1'' ''t'' [] =
     (Inr \<lparr>table_name = ''t'', schema = ''public'', df = None, normalized_column_names = None\<rparr>,
      [BatchSubmit
         (''BEGIN; DROP TABLE IF EXISTS t; CREATE TABLE t AS (SELECT 1); SELECT CDB_CartodbfyTable(''
            @ sq @ ''public'' @ sq @ '', '' @ sq @ ''t'' @ sq @ ''); COMMIT;'')])"
    by (simp add: create_from_query_def Dataset_init_def demo_ext_def l Let_def failed_job_cc_def
        demo_cc_def create_batch_def drop_table_query_def create_table_from_query_def
        cartodbfy_query_def)
  have b: "fst (create_table demo_ext failed_job_cc demo_ds None []) =
     Inl (CartoException ''Cannot create table: out of quota.'')"
    by (simp add: create_table_def demo_create_table_query Let_def failed_job_cc_def)
  show ?thesis using a b by (simp add: failed_job_cc_def)
qed

subsection \<open>Column introspection\<close>

text \<open>
  C10. When the \<^verbatim>\<open>information_schema\<close> query of \<^verbatim>\<open>get_table_columns\<close> raises a
  \<^verbatim>\<open>CartoException\<close> whose message is not exactly \<^verbatim>\<open>'Access denied'\<close>, the error is
  swallowed and the function returns \<^verbatim>\<open>None\<close>: no column list and no error, and no
  further query is sent. When the message is exactly \<^verbatim>\<open>'Access denied'\<close> the zero-row
  probe is sent and its field metadata (or its error) is the result. The zero-row
  probe is sent in that case only.
\<close>

theorem get_table_columns_swallows:
  "(\<forall>e. sql_client_send cc log (catalog_query ds) True = Inl e \<and> is_CartoException e \<and>
         exn_str e \<noteq> ''Access denied'' \<longrightarrow>
      get_table_columns cc ds log = (Inr None, log @ [SqlSend (catalog_query ds) True])) \<and>
   (\<forall>e. sql_client_send cc log (catalog_query ds) True = Inl e \<and> is_CartoException e \<and>
         exn_str e = ''Access denied'' \<longrightarrow>
      get_table_columns cc ds log =
        (case sql_client_send cc (log @ [SqlSend (catalog_query ds) True])
                (col_query (zero_row_query ds)) True of
           Inl e' \<Rightarrow> Inl e'
         | Inr table_info \<Rightarrow> Inr (Some (from_sql_api_fields cc (result_fields table_info))),
         log @ [SqlSend (catalog_query ds) True,
                SqlSend (col_query (zero_row_query ds)) True])) \<and>
   (SqlSend (col_query (zero_row_query ds)) True
      \<in> set (drop (length log) (snd (get_table_columns cc ds log)))
    \<longleftrightarrow> (\<exists>e. sql_client_send cc log (catalog_query ds) True = Inl e \<and> is_CartoException e \<and>
              exn_str e = ''Access denied''))"
proof -
  show ?thesis
    using catalog_query_neq_col_query [of ds "zero_row_query ds"]
    by (auto simp: get_table_columns_def get_columns_def Let_def split: sum.splits prod.splits)
qed

text \<open>Witness for C10: a missing relation is swallowed, a denied access falls back.\<close>

theorem get_table_columns_swallows_witness:
  "get_table_columns (catalog_error_cc demo_ds (CartoException ''relation does not exist'')) demo_ds [] =
     (Inr None, [SqlSend (catalog_query demo_ds) True]) \<and>
   get_table_columns (catalog_error_cc demo_ds (CartoException ''Access denied'')) demo_ds [] =
     (Inr (Some [\<lparr>name = ''cartodb_id'', pgtype = ''number''\<rparr>,
                 \<lparr>name = ''the_geom'', pgtype = ''geometry''\<rparr>]),
      [SqlSend (catalog_query demo_ds) True,
       SqlSend (col_query (zero_row_query demo_ds)) True])"
proof -
  have n: "col_query (zero_row_query demo_ds) \<noteq> catalog_query demo_ds"
    using catalog_query_neq_col_query [of demo_ds "zero_row_query demo_ds"] by simp
  have a: "get_table_columns (catalog_error_cc demo_ds (CartoException ''relation does not exist'')) demo_ds [] =
     (Inr None, [SqlSend (catalog_query demo_ds) True])"
    using get_table_columns_swallows
      [of "catalog_error_cc demo_ds (CartoException ''relation does not exist'')" "[]" demo_ds,
       THEN conjunct1, rule_format, of "CartoException ''relation does not exist''"]
    by (simp add: catalog_error_cc_def)
  have b: "get_table_columns (catalog_error_cc demo_ds (CartoException ''Access denied'')) demo_ds [] =
     (Inr (Some [\<lparr>name = ''cartodb_id'', pgtype = ''number''\<rparr>,
                 \<lparr>name = ''the_geom'', pgtype = ''geometry''\<rparr>]),
      [SqlSend (catalog_query demo_ds) True,
       SqlSend (col_query (zero_row_query demo_ds)) True])"
    using get_table_columns_swallows
      [of "catalog_error_cc demo_ds (CartoException ''Access denied'')" "[]" demo_ds,
       THEN conjunct2, THEN conjunct1, rule_format, of "CartoException ''Access denied''"] n
    by (simp add: catalog_error_cc_def demo_cc_def)
  show ?thesis using a b by simp
qed

lemma str_nat_digit: "n < 10 \<Longrightarrow> str_nat n = [digit_char n]"
  by (simp add: str_nat.simps)

lemma demo_get_table_columns:
  "get_table_columns catalog_cc demo_ds [] = (Inr (Some demo_columns), [SqlSend (catalog_query demo_ds) True])"
  by (simp add: get_table_columns_def catalog_cc_def demo_columns_def Let_def)

subsection \<open>Read query\<close>

text \<open>
  C9, amended. Given the columns of the table, \<^verbatim>\<open>_get_read_query\<close> builds
  \<^verbatim>\<open>SELECT <cols> FROM "<schema>"."<table>"\<close> over the columns other than
  \<^verbatim>\<open>the_geom_webmercator\<close>. With \<^verbatim>\<open>limit=None\<close> nothing is appended. With a limit that is
  an \<^verbatim>\<open>int\<close> (for Python a \<^verbatim>\<open>bool\<close> is one) and not negative, \<^verbatim>\<open>LIMIT <limit>\<close> is appended.
  Every other limit raises the \<^verbatim>\<open>ValueError\<close>. In \<^verbatim>\<open>download\<close> that error is raised
  before the read query is fetched, and after the column-introspection query has
  been sent to the service.
\<close>

theorem get_read_query_limit:
  "get_read_query ds (Some tc) VNone =
     Inr (select_query ds (filter (\<lambda>n. n \<noteq> ''the_geom_webmercator'') (map name tc))) \<and>
   (isinstance_int limit \<and> 0 \<le> int_value limit \<longrightarrow>
      get_read_query ds (Some tc) limit =
        Inr (select_query ds (filter (\<lambda>n. n \<noteq> ''the_geom_webmercator'') (map name tc))
               @ '' LIMIT '' @ py_str limit)) \<and>
   (limit \<noteq> VNone \<and> \<not> (isinstance_int limit \<and> 0 \<le> int_value limit) \<longrightarrow>
      get_read_query ds (Some tc) limit =
        Inl (ValueError ''`limit` parameter must an integer >= 0'')) \<and>
   (\<forall>log1. get_table_columns cc ds log = (Inr (Some tc), log1) \<and>
      limit \<noteq> VNone \<and> \<not> (isinstance_int limit \<and> 0 \<le> int_value limit) \<longrightarrow>
      download cc ds limit dg rt log =
        (Inl (ValueError ''`limit` parameter must an integer >= 0''), log1) \<and>
      filter is_Fetch log1 = filter is_Fetch log \<and>
      SqlSend (catalog_query ds) True \<in> set (drop (length log) log1))"
proof -
  have a: "get_read_query ds (Some tc) VNone =
     Inr (select_query ds (filter (\<lambda>n. n \<noteq> ''the_geom_webmercator'') (map name tc)))"
    by (simp add: get_read_query_def)
  have b: "isinstance_int limit \<and> 0 \<le> int_value limit \<longrightarrow>
      get_read_query ds (Some tc) limit =
        Inr (select_query ds (filter (\<lambda>n. n \<noteq> ''the_geom_webmercator'') (map name tc))
               @ '' LIMIT '' @ py_str limit)"
    by (cases limit) (simp_all add: get_read_query_def)
  have c: "limit \<noteq> VNone \<and> \<not> (isinstance_int limit \<and> 0 \<le> int_value limit) \<longrightarrow>
      get_read_query ds (Some tc) limit =
        Inl (ValueError ''`limit` parameter must an integer >= 0'')"
    by (simp add: get_read_query_def)
  have d: "download cc ds limit dg rt log =
        (Inl (ValueError ''`limit` parameter must an integer >= 0''), log1) \<and>
      filter is_Fetch log1 = filter is_Fetch log \<and>
      SqlSend (catalog_query ds) True \<in> set (drop (length log) log1)"
    if h: "get_table_columns cc ds log = (Inr (Some tc), log1)"
      "limit \<noteq> VNone \<and> \<not> (isinstance_int limit \<and> 0 \<le> int_value limit)" for log1
  proof -
    have "log1 = log @ [SqlSend (catalog_query ds) True] \<or>
          log1 = log @ [SqlSend (catalog_query ds) True, SqlSend (col_query (zero_row_query ds)) True]"
      using get_table_columns_log [of cc ds log] h(1) by simp
    then have "filter is_Fetch log1 = filter is_Fetch log \<and>
      SqlSend (catalog_query ds) True \<in> set (drop (length log) log1)"
      by auto
    moreover have "download cc ds limit dg rt log =
        (Inl (ValueError ''`limit` parameter must an integer >= 0''), log1)"
      using h c by (simp add: download_def)
    ultimately show ?thesis by simp
  qed
  show ?thesis using a b c d by blast
qed

text \<open>Witness for C9: the limits 5 and \<^verbatim>\<open>'5'\<close> on a table of three columns.\<close>

theorem get_read_query_limit_witness:
  "get_read_query demo_ds (Some demo_columns) (VInt 5) =
     Inr (''SELECT cartodb_id, the_geom FROM '' @ dq @ ''public'' @ dq @ ''.'' @ dq @ ''t'' @ dq
            @ '' LIMIT 5'') \<and>
   get_read_query demo_ds (Some demo_columns) (VStr ''5'') =
     Inl (ValueError ''`limit` parameter must an integer >= 0'') \<and>
   download catalog_cc demo_ds (VStr ''5'') False 3 [] =
     (Inl (ValueError ''`limit` parameter must an integer >= 0''),
      [SqlSend (catalog_query demo_ds) True])"
proof -
  note t = get_read_query_limit [of demo_ds demo_columns _ catalog_cc "[]" False 3]
  have a: "get_read_query demo_ds (Some demo_columns) (VInt 5) =
     Inr (''SELECT cartodb_id, the_geom FROM '' @ dq @ ''public'' @ dq @ ''.'' @ dq @ ''t'' @ dq
            @ '' LIMIT 5'')"
    using t [of "VInt 5", THEN conjunct2, THEN conjunct1]
    by (simp add: select_query_def demo_columns_def demo_ds_def str_int_def str_nat_digit digit_char_def)
  have b: "get_read_query demo_ds (Some demo_columns) (VStr ''5'') =
     Inl (ValueError ''`limit` parameter must an integer >= 0'')"
    using t [of "VStr ''5''", THEN conjunct2, THEN conjunct2, THEN conjunct1] by simp
  have c: "download catalog_cc demo_ds (VStr ''5'') False 3 [] =
     (Inl (ValueError ''`limit` parameter must an integer >= 0''),
      [SqlSend (catalog_query demo_ds) True])"
    using t [of "VStr ''5''", THEN conjunct2, THEN conjunct2, THEN conjunct2, rule_format,
        of "[SqlSend (catalog_query demo_ds) True]"] demo_get_table_columns
    by simp
  show ?thesis using a b c by simp
qed

text \<open>
  Counterexample to C9 as stated (the error comes before any query is executed):
  \<^verbatim>\<open>download(limit=-1)\<close> raises the \<^verbatim>\<open>ValueError\<close> with the catalog query already sent.
\<close>

theorem download_limit_after_query_counterexample:
  "download catalog_cc demo_ds (VInt (- 1)) False 3 [] =
     (Inl (ValueError ''`limit` parameter must an integer >= 0''),
      [SqlSend (catalog_query demo_ds) True])"
  by (simp add: download_def demo_get_table_columns get_read_query_def)

lemma col_defs_map:
  "\<forall>p \<in> set ncn. snd p \<in> fst ` set (dtypes d) \<Longrightarrow>
   col_defs d ncn = Inr (map (\<lambda>(norm, orig). norm @ '' '' @ pg_of d orig) ncn)"
proof (induction ncn)
  case Nil
  then show ?case by simp
next
  case (Cons p ps)
  obtain norm orig where p: "p = (norm, orig)" by (cases p)
  from Cons.prems p have "orig \<in> fst ` set (dtypes d)" by simp
  then obtain dt where "map_of (dtypes d) orig = Some dt"
    by (metis domD dom_map_of_conv_image_fst)
  with Cons p show ?case by (simp add: col_def_def pg_of_def)
qed

lemma normalize_column_names_order:
  assumes "length (normalize_names ext (filter (\<lambda>c. c \<notin> set (RESERVED_COLUMN_NAMES ext)) (columns d)))
             = length (filter (\<lambda>c. c \<notin> set (RESERVED_COLUMN_NAMES ext)) (columns d))"
  shows "map snd (normalize_column_names ext d) =
           filter (\<lambda>c. c \<notin> set (RESERVED_COLUMN_NAMES ext)) (columns d) \<and>
         map fst (normalize_column_names ext d) =
           normalize_names ext (filter (\<lambda>c. c \<notin> set (RESERVED_COLUMN_NAMES ext)) (columns d))"
proof -
  have "map (snd \<circ> (\<lambda>(orig, norm). (norm, orig))) (zip xs ys) = xs \<and>
        map (fst \<circ> (\<lambda>(orig, norm). (norm, orig))) (zip xs ys) = ys"
    if "length ys = length xs" for xs ys :: "string list"
    using that by (induction xs ys rule: list_induct2') auto
  with assms show ?thesis
    by (simp add: normalize_column_names_def Let_def)
qed

subsection \<open>Create-from-schema\<close>

text \<open>
  C7. For a Dataset with a dataframe, \<^verbatim>\<open>_create_table_query\<close> gives
  \<^verbatim>\<open>CREATE TABLE <table> (<col defs>[, the_geom geometry(<type>, 4326)])\<close> with one
  \<^verbatim>\<open><normalized name> <db type>\<close> per entry of \<^verbatim>\<open>normalized_column_names\<close>, in its order,
  which is the order of the frame's columns that are not reserved. The type is
  \<^verbatim>\<open>numeric\<close> for float64 and float32, \<^verbatim>\<open>integer\<close> for int64 and int32, \<^verbatim>\<open>text\<close> for object,
  \<^verbatim>\<open>boolean\<close> for bool, \<^verbatim>\<open>timestamp\<close> for datetime64[ns] and datetime64[ns, UTC], and
  \<^verbatim>\<open>text\<close> for every other dtype. In lon/lat mode the geometry column is always there
  and its type is \<^verbatim>\<open>Point\<close>, whatever the frame holds; otherwise it is there when
  \<^verbatim>\<open>_get_geom_col_type\<close> finds a (non-empty) type name, with that type.
\<close>

theorem create_table_query_shape:
  assumes "df ds = Some d" and "normalized_column_names ds = Some ncn"
    and "\<forall>p \<in> set ncn. snd p \<in> fst ` set (dtypes d)"
  shows "(\<forall>ll. wl = Some ll \<longrightarrow>
            create_table_query ext ds wl =
              (Inr (''CREATE TABLE '' @ table_name ds @ '' (''
                      @ join '', '' (map (\<lambda>(norm, orig). norm @ '' '' @ pg_of d orig) ncn)
                      @ '', the_geom geometry(Point, 4326)'' @ '')''), [])) \<and>
         (\<forall>gt w. wl = None \<and> get_geom_col_type ext d = (Inr gt, w) \<longrightarrow>
            create_table_query ext ds wl =
              (Inr (''CREATE TABLE '' @ table_name ds @ '' (''
                      @ join '', '' (map (\<lambda>(norm, orig). norm @ '' '' @ pg_of d orig) ncn)
                      @ (case gt of
                           None \<Rightarrow> []
                         | Some t \<Rightarrow> if t \<noteq> [] then '', the_geom geometry('' @ t @ '', 4326)'' else [])
                      @ '')''), w)) \<and>
         (\<forall>orig dtype. map_of (dtypes d) orig = Some dtype \<longrightarrow>
            pg_of d orig =
              (if dtype \<in> {''float64'', ''float32''} then ''numeric''
               else if dtype \<in> {''int64'', ''int32''} then ''integer''
               else if dtype = ''object'' then ''text''
               else if dtype = ''bool'' then ''boolean''
               else if dtype \<in> {''datetime64[ns]'', ''datetime64[ns, UTC]''} then ''timestamp''
               else ''text'')) \<and>
         (length (normalize_names ext (filter (\<lambda>c. c \<notin> set (RESERVED_COLUMN_NAMES ext)) (columns d)))
            = length (filter (\<lambda>c. c \<notin> set (RESERVED_COLUMN_NAMES ext)) (columns d)) \<longrightarrow>
          map snd (normalize_column_names ext d) =
            filter (\<lambda>c. c \<notin> set (RESERVED_COLUMN_NAMES ext)) (columns d))"
proof -
  note cd = col_defs_map [OF assms(3)]
  have a: "\<forall>ll. wl = Some ll \<longrightarrow>
            create_table_query ext ds wl =
              (Inr (''CREATE TABLE '' @ table_name ds @ '' (''
                      @ join '', '' (map (\<lambda>(norm, orig). norm @ '' '' @ pg_of d orig) ncn)
                      @ '', the_geom geometry(Point, 4326)'' @ '')''), [])"
    using assms(1,2) cd by (simp add: create_table_query_def geom_col_def_def)
  have b: "\<forall>gt w. wl = None \<and> get_geom_col_type ext d = (Inr gt, w) \<longrightarrow>
            create_table_query ext ds wl =
              (Inr (''CREATE TABLE '' @ table_name ds @ '' (''
                      @ join '', '' (map (\<lambda>(norm, orig). norm @ '' '' @ pg_of d orig) ncn)
                      @ (case gt of
                           None \<Rightarrow> []
                         | Some t \<Rightarrow> if t \<noteq> [] then '', the_geom geometry('' @ t @ '', 4326)'' else [])
                      @ '')''), w)"
    using assms(1,2) cd by (simp add: create_table_query_def geom_col_def_def split: option.splits)
  have c: "\<forall>orig dtype. map_of (dtypes d) orig = Some dtype \<longrightarrow>
            pg_of d orig =
              (if dtype \<in> {''float64'', ''float32''} then ''numeric''
               else if dtype \<in> {''int64'', ''int32''} then ''integer''
               else if dtype = ''object'' then ''text''
               else if dtype = ''bool'' then ''boolean''
               else if dtype \<in> {''datetime64[ns]'', ''datetime64[ns, UTC]''} then ''timestamp''
               else ''text'')"
    by (simp add: pg_of_def dtypes2pg_def)
  show ?thesis using a b c normalize_column_names_order [of ext d] by blast
qed

lemma shop_geom_col_type: "get_geom_col_type demo_ext shop_df = (Inr (Some ''Polygon''), [])"
proof -
  have n: "get_geom_col_name demo_ext shop_df = Some ''the_geom''"
    by (simp add: get_geom_col_name_def shop_df_def demo_ext_def lower_def lower_char_def)
  have f: "first_not_null_value shop_df ''the_geom'' = Inr (VGeom square)"
    by (simp add: first_not_null_value_def shop_df_def)
  show ?thesis
    by (simp add: get_geom_col_type_def n f decode_geom_def decode_geom_traced_def square_def)
qed

text \<open>
  Witness for C7: the frame of shops, whose geometry is a polygon, without and with
  lon/lat mode.
\<close>

theorem create_table_query_shape_witness:
  "create_table_query demo_ext shop_ds None =
     (Inr (''CREATE TABLE shops (id integer, name text, price numeric, open boolean, ''
             @ ''since timestamp, the_geom geometry(Polygon, 4326))''), []) \<and>
   create_table_query demo_ext shop_ds (Some (''lng'', ''lat'')) =
     (Inr (''CREATE TABLE shops (id integer, name text, price numeric, open boolean, ''
             @ ''since timestamp, the_geom geometry(Point, 4326))''), [])"
proof -
  have 1: "df shop_ds = Some shop_df"
    by (simp add: shop_ds_def)
  have 2: "normalized_column_names shop_ds =
        Some [(''id'', ''id''), (''name'', ''name''), (''price'', ''price''), (''open'', ''open''),
              (''since'', ''since'')]"
    by (simp add: shop_ds_def)
  have 3: "\<forall>p \<in> set [(''id'', ''id''), (''name'', ''name''), (''price'', ''price''),
              (''open'', ''open''), (''since'', ''since'')]. snd p \<in> fst ` set (dtypes shop_df)"
    by (simp add: shop_df_def)
  have pg: "pg_of shop_df ''id'' = ''integer''" "pg_of shop_df ''name'' = ''text''"
    "pg_of shop_df ''price'' = ''numeric''" "pg_of shop_df ''open'' = ''boolean''"
    "pg_of shop_df ''since'' = ''timestamp''"
    by (simp_all add: pg_of_def shop_df_def dtypes2pg_def)
  have t: "table_name shop_ds = ''shops''"
    by (simp add: shop_ds_def)
  have a: "create_table_query demo_ext shop_ds None =
     (Inr (''CREATE TABLE shops (id integer, name text, price numeric, open boolean, ''
             @ ''since timestamp, the_geom geometry(Polygon, 4326))''), [])"
    using create_table_query_shape [OF 1 2 3, of None demo_ext, THEN conjunct2, THEN conjunct1,
        rule_format, of "Some ''Polygon''" "[]"] shop_geom_col_type
    by (simp add: pg t)
  have b: "create_table_query demo_ext shop_ds (Some (''lng'', ''lat'')) =
     (Inr (''CREATE TABLE shops (id integer, name text, price numeric, open boolean, ''
             @ ''since timestamp, the_geom geometry(Point, 4326))''), [])"
    using create_table_query_shape [OF 1 2 3, of "Some (''lng'', ''lat'')" demo_ext,
        THEN conjunct1, rule_format, of "(''lng'', ''lat'')"]
    by (simp add: pg t)
  show ?thesis using a b by simp
qed

lemma exists_no_NameError:
  assumes "\<And>l q b e. sql_client_send cc l q b = Inl e \<Longrightarrow> \<not> is_NameError e"
    and "Dataset_exists cc ds log = (Inl e, l1)"
  shows "\<not> is_NameError e"
  using assms by (auto simp: Dataset_exists_def Let_def split: sum.splits if_splits)

lemma decode_geom_no_NameError: "decode_geom ext v = Inl e \<Longrightarrow> \<not> is_NameError e"
  by (auto simp: decode_geom_def decode_geom_traced_def split: if_splits option.splits)

lemma get_geom_col_type_no_NameError:
  "get_geom_col_type ext d = (Inl e, w) \<Longrightarrow> \<not> is_NameError e"
  using decode_geom_no_NameError [of ext]
  by (auto simp: get_geom_col_type_def first_not_null_value_def
      split: option.splits sum.splits exn.splits pyval.splits if_splits list.splits)

lemma col_defs_no_NameError: "col_defs d ncn = Inl e \<Longrightarrow> \<not> is_NameError e"
  by (induction ncn) (auto simp: col_def_def split: sum.splits option.splits prod.splits)

lemma create_table_query_no_NameError:
  "create_table_query ext ds wl = (Inl e, w) \<Longrightarrow> \<not> is_NameError e"
  using get_geom_col_type_no_NameError [of ext] col_defs_no_NameError
  by (auto simp: create_table_query_def Let_def no_attribute_def not_iterable_def
      split: option.splits sum.splits prod.splits if_splits)

lemma create_table_no_NameError:
  assumes "\<And>l q e. create_and_wait_for_completion cc l q = Inl e \<Longrightarrow> \<not> is_NameError e"
    and "create_table ext cc ds wl log = (Inl e, l1)"
  shows "\<not> is_NameError e"
  using assms create_table_query_no_NameError [of ext ds wl]
  by (auto simp: create_table_def Let_def split: option.splits sum.splits prod.splits if_splits)

lemma rows_cols_no_NameError:
  "rows_cols ext d row wl gc cols acc = Inl e \<Longrightarrow> \<not> is_NameError e"
  by (induction cols arbitrary: acc) (auto simp: Let_def split: if_splits)

lemma row_line_no_NameError: "row_line ext d cols wl gc row = Inl e \<Longrightarrow> \<not> is_NameError e"
  using rows_cols_no_NameError [of ext d row wl gc cols] decode_geom_no_NameError [of ext]
  by (auto simp: row_line_def geom_field_def split: sum.splits if_splits pyval.splits)

lemma yielded_no_NameError:
  "yielded (map (row_line ext d cols wl gc) rs) = (ls, Some e) \<Longrightarrow> \<not> is_NameError e"
proof (induction rs arbitrary: ls)
  case Nil
  then show ?case by simp
next
  case (Cons r rs)
  show ?case
  proof (cases "row_line ext d cols wl gc r")
    case (Inl x)
    with Cons.prems row_line_no_NameError [of ext d cols wl gc r x] show ?thesis by simp
  next
    case (Inr l)
    with Cons show ?thesis by (auto split: prod.splits)
  qed
qed

lemma copyfrom_no_NameError:
  assumes "\<And>l q ls e. copy_client_copyfrom cc l q ls = Some e \<Longrightarrow> \<not> is_NameError e"
    and "Dataset_copyfrom ext cc ds wl log = (Inl e, l1)"
  shows "\<not> is_NameError e"
  using assms yielded_no_NameError [of ext]
  by (auto simp: Dataset_copyfrom_def Dataset_rows_def Let_def no_attribute_def not_iterable_def
      split: option.splits sum.splits prod.splits if_splits)

lemma copyfrom_log:
  assumes "df ds = Some d" and "normalized_column_names ds = Some ncn"
  shows "snd (Dataset_copyfrom ext cc ds wl log) =
           log @ [CopyFrom (copyfrom_query ds (join '','' (map fst ncn))) (copy_lines ext d wl)]"
  using assms
  by (auto simp: Dataset_copyfrom_def copy_lines_def Let_def split: option.splits prod.splits)

subsection \<open>Upload and the conflict policy\<close>

text \<open>
  C2. Take a Dataset with a dataframe (and hence its normalized column names) and
  collaborators that do not themselves raise a \<^verbatim>\<open>NameError\<close>. Then \<^verbatim>\<open>upload\<close> raises a
  \<^verbatim>\<open>NameError\<close> if and only if \<^verbatim>\<open>exists()\<close> returned \<^verbatim>\<open>True\<close> and \<^verbatim>\<open>if_exists\<close> is \<^verbatim>\<open>'fail'\<close>. When
  it does, the message is the "already exists" text with the table name, and the
  only call made is the existence probe: no batch is submitted, no row is serialized
  and no bulk-copy call is made. For every other policy on an existing table the
  bulk-copy call follows: at once for any value other than \<^verbatim>\<open>'replace'\<close>, and for
  \<^verbatim>\<open>'replace'\<close> once the table has been created again.
\<close>

theorem upload_conflict_policy:
  assumes "df ds = Some d" and "normalized_column_names ds = Some ncn"
    and "\<And>l q b e. sql_client_send cc l q b = Inl e \<Longrightarrow> \<not> is_NameError e"
    and "\<And>l q e. create_and_wait_for_completion cc l q = Inl e \<Longrightarrow> \<not> is_NameError e"
    and "\<And>l q ls e. copy_client_copyfrom cc l q ls = Some e \<Longrightarrow> \<not> is_NameError e"
  shows "((\<exists>m l. upload ext cc ds wl pol log = (Inl (NameError m), l)) \<longleftrightarrow>
            fst (Dataset_exists cc ds log) = Inr True \<and> pol = ''fail'') \<and>
         (fst (Dataset_exists cc ds log) = Inr True \<and> pol = ''fail'' \<longrightarrow>
            upload ext cc ds wl pol log =
              (Inl (NameError (already_exists_msg (table_name ds))),
               log @ [SqlSend (exists_query ds) False])) \<and>
         (fst (Dataset_exists cc ds log) = Inr True \<and> pol \<noteq> ''fail'' \<and> pol \<noteq> ''replace'' \<longrightarrow>
            snd (upload ext cc ds wl pol log) =
              log @ [SqlSend (exists_query ds) False,
                     CopyFrom (copyfrom_query ds (join '','' (map fst ncn))) (copy_lines ext d wl)]) \<and>
         (\<forall>l2. fst (Dataset_exists cc ds log) = Inr True \<and> pol = ''replace'' \<and>
               create_table ext cc ds wl (log @ [SqlSend (exists_query ds) False]) = (Inr (), l2) \<longrightarrow>
            snd (upload ext cc ds wl pol log) =
              l2 @ [CopyFrom (copyfrom_query ds (join '','' (map fst ncn))) (copy_lines ext d wl)])"
proof -
  obtain ex l1 where E: "Dataset_exists cc ds log = (ex, l1)"
    by (cases "Dataset_exists cc ds log")
  have l1: "ex = Inr True \<Longrightarrow> l1 = log @ [SqlSend (exists_query ds) False]"
    using E by (auto simp: Dataset_exists_def Let_def split: sum.splits if_splits)
  note cf = copyfrom_log [OF assms(1,2), of ext cc wl]
  have b: "fst (Dataset_exists cc ds log) = Inr True \<and> pol = ''fail'' \<longrightarrow>
            upload ext cc ds wl pol log =
              (Inl (NameError (already_exists_msg (table_name ds))),
               log @ [SqlSend (exists_query ds) False])"
    using E l1 assms(1) by (auto simp: upload_def FAIL_def)
  have c: "fst (Dataset_exists cc ds log) = Inr True \<and> pol \<noteq> ''fail'' \<and> pol \<noteq> ''replace'' \<longrightarrow>
            snd (upload ext cc ds wl pol log) =
              log @ [SqlSend (exists_query ds) False,
                     CopyFrom (copyfrom_query ds (join '','' (map fst ncn))) (copy_lines ext d wl)]"
    using E l1 assms(1) cf [of "log @ [SqlSend (exists_query ds) False]"]
    by (auto simp: upload_def FAIL_def REPLACE_def split: prod.splits sum.splits)
  have d: "\<forall>l2. fst (Dataset_exists cc ds log) = Inr True \<and> pol = ''replace'' \<and>
               create_table ext cc ds wl (log @ [SqlSend (exists_query ds) False]) = (Inr (), l2) \<longrightarrow>
            snd (upload ext cc ds wl pol log) =
              l2 @ [CopyFrom (copyfrom_query ds (join '','' (map fst ncn))) (copy_lines ext d wl)]"
  proof (intro allI impI)
    fix l2
    assume h: "fst (Dataset_exists cc ds log) = Inr True \<and> pol = ''replace'' \<and>
               create_table ext cc ds wl (log @ [SqlSend (exists_query ds) False]) = (Inr (), l2)"
    with E l1 assms(1) cf [of l2]
    show "snd (upload ext cc ds wl pol log) =
              l2 @ [CopyFrom (copyfrom_query ds (join '','' (map fst ncn))) (copy_lines ext d wl)]"
      by (auto simp: upload_def FAIL_def REPLACE_def split: prod.splits sum.splits)
  qed
  have a: "(\<exists>m l. upload ext cc ds wl pol log = (Inl (NameError m), l)) \<longleftrightarrow>
            fst (Dataset_exists cc ds log) = Inr True \<and> pol = ''fail''"
  proof
    assume "fst (Dataset_exists cc ds log) = Inr True \<and> pol = ''fail''"
    with b show "\<exists>m l. upload ext cc ds wl pol log = (Inl (NameError m), l)" by blast
  next
    assume "\<exists>m l. upload ext cc ds wl pol log = (Inl (NameError m), l)"
    then obtain m l where u: "upload ext cc ds wl pol log = (Inl (NameError m), l)" by blast
    show "fst (Dataset_exists cc ds log) = Inr True \<and> pol = ''fail''"
    proof (rule ccontr)
      assume n: "\<not> (fst (Dataset_exists cc ds log) = Inr True \<and> pol = ''fail'')"
      have ne1: "Dataset_exists cc ds lg \<noteq> (Inl (NameError x), lg')" for lg lg' x
        using exists_no_NameError [OF assms(3), where e = "NameError x"] by fastforce
      have ne2: "create_table ext cc ds wl lg \<noteq> (Inl (NameError x), lg')" for lg lg' x
        using create_table_no_NameError [OF assms(4), where e = "NameError x"] by fastforce
      have ne3: "Dataset_copyfrom ext cc ds wl lg \<noteq> (Inl (NameError x), lg')" for lg lg' x
        using copyfrom_no_NameError [OF assms(5), where e = "NameError x"] by fastforce
      show False
        using u n E assms(1) ne1 ne2 ne3
        by (auto simp: upload_def FAIL_def split: prod.splits sum.splits if_splits)
    qed
  qed
  show ?thesis using a b c d by blast
qed

lemma isnull_VNone: "(isnull v \<or> v = VNone) = isnull v"
  by (cases v) auto

lemma picked_Cons:
  "picked row t (c # cs) old = picked row t cs (if t = Some c then row c else old)"
  by (auto simp: picked_def split: option.splits)

lemma fields_text_Cons:
  "fields_text row gc (c # cs) =
     (if Some c = gc then [] else field_text (row c) @ ''|'') @ fields_text row gc cs"
  by (simp add: fields_text_def)

lemma rows_cols_skip:
  "wl \<noteq> None \<Longrightarrow> col \<in> set (SUPPORTED_GEOM_COL_NAMES ext) \<Longrightarrow>
   rows_cols ext d row wl gc (col # cols) acc = rows_cols ext d row wl gc cols acc"
  by simp

lemma rows_cols_step:
  "\<not> (wl \<noteq> None \<and> col \<in> set (SUPPORTED_GEOM_COL_NAMES ext)) \<Longrightarrow> col \<in> set (columns d) \<Longrightarrow>
   rows_cols ext d row wl gc (col # cols) acc =
     rows_cols ext d row wl gc cols
       \<lparr>csv_row = csv_row acc @ (if Some col = gc then [] else field_text (row col) @ ''|''),
        the_geom_val = (if gc = Some col then row col else the_geom_val acc),
        lng_val = (if map_option fst wl = Some col then row col else lng_val acc),
        lat_val = (if map_option snd wl = Some col then row col else lat_val acc)\<rparr>"
  by (cases acc; cases wl) (auto simp: Let_def field_text_def isnull_VNone split: prod.splits)

lemma rows_cols_closed:
  "set cols \<subseteq> set (columns d) \<Longrightarrow>
   rows_cols ext d row wl gc cols acc =
     Inr \<lparr>csv_row = csv_row acc @ fields_text row gc (kept ext wl cols),
          the_geom_val = picked row gc (kept ext wl cols) (the_geom_val acc),
          lng_val = picked row (map_option fst wl) (kept ext wl cols) (lng_val acc),
          lat_val = picked row (map_option snd wl) (kept ext wl cols) (lat_val acc)\<rparr>"
proof (induction cols arbitrary: acc)
  case Nil
  then show ?case by (simp add: kept_def fields_text_def picked_def split: option.splits)
next
  case (Cons col cols)
  then have sub: "set cols \<subseteq> set (columns d)" and col: "col \<in> set (columns d)" by auto
  note IH = Cons.IH [OF sub]
  show ?case
  proof (cases "wl \<noteq> None \<and> col \<in> set (SUPPORTED_GEOM_COL_NAMES ext)")
    case True
    then have k: "kept ext wl (col # cols) = kept ext wl cols" by (simp add: kept_def)
    from True have "rows_cols ext d row wl gc (col # cols) acc = rows_cols ext d row wl gc cols acc"
      using rows_cols_skip [of wl col ext d row gc cols acc] by blast
    then show ?thesis by (simp only: IH k)
  next
    case False
    then have k: "kept ext wl (col # cols) = col # kept ext wl cols" by (auto simp: kept_def)
    show ?thesis
      unfolding rows_cols_step [OF False col] IH k picked_Cons fields_text_Cons
      by (simp add: eq_commute)
  qed
qed

lemma row_line_closed:
  "set cols \<subseteq> set (columns d) \<Longrightarrow>
   row_line ext d cols wl gc row =
     (case geom_field ext (picked row gc (kept ext wl cols) VNone) of
        Inl e \<Rightarrow> Inl e
      | Inr gf \<Rightarrow>
         Inr (fields_text row gc (kept ext wl cols) @ gf
              @ (if wl \<noteq> None \<and> picked row (map_option fst wl) (kept ext wl cols) VNone \<noteq> VNone
                    \<and> picked row (map_option snd wl) (kept ext wl cols) VNone \<noteq> VNone
                 then ''SRID=4326;POINT(''
                        @ py_str (picked row (map_option fst wl) (kept ext wl cols) VNone) @ '' ''
                        @ py_str (picked row (map_option snd wl) (kept ext wl cols) VNone) @ '')''
                 else [])
              @ nl))"
  by (simp add: row_line_def rows_cols_closed row_acc0_def lonlat_field_def split: sum.splits)

lemma geom_field_cases:
  "geom_field ext v =
     (if v = VNone then Inr []
      else case decode_geom ext v of
             Inl e \<Rightarrow> Inl e
           | Inr (VGeom g) \<Rightarrow> if nonempty g then Inr (''SRID=4326;'' @ wkt g) else Inr []
           | Inr other \<Rightarrow> if py_truthy other then Inl (AttributeError ''wkt'') else Inr [])"
  by (auto simp: geom_field_def split: sum.splits pyval.splits)

lemma decode_geom_VNone: "decode_geom ext VNone \<noteq> Inr (VGeom g)"
  by (simp add: decode_geom_def decode_geom_traced_def split: option.splits)

lemma geom_field_empty:
  "v = VNone \<or> decode_geom ext v = Inr VNone \<or>
   (\<exists>g. decode_geom ext v = Inr (VGeom g) \<and> \<not> nonempty g) \<Longrightarrow> geom_field ext v = Inr []"
  by (auto simp: geom_field_cases)

subsection \<open>Bulk row serializer\<close>

text \<open>
  C1, amended. Take the columns to serialize among the frame's columns. Without
  lon/lat mode the line of a row is the texts of the columns other than the geometry
  column, in column order, each followed by a pipe, a null value being the empty
  text; then, when the geometry column is among the columns and its value decodes to
  a geometry that is true under \<^verbatim>\<open>if geom:\<close> (not empty), the field \<^verbatim>\<open>SRID=4326;<WKT>\<close>; then
  one newline. When there is no geometry column, or its value is \<^verbatim>\<open>None\<close>, decodes to
  \<^verbatim>\<open>None\<close> or decodes to an empty geometry, no such field is written. In lon/lat mode,
  when the geometry column is not among the columns kept and both coordinates are
  there, the line ends with \<^verbatim>\<open>SRID=4326;POINT(<lon> <lat>)\<close> and a newline. The stream has
  one element per row of the frame. Lines are strings of bytes. The WKT of the
  geometry field is the geometry's own \<^verbatim>\<open>wkt\<close> text: for the point at (1,2) the line is
  \<^verbatim>\<open>1|A|SRID=4326;POINT (1 2)\<close>, with the space the library writes.
\<close>

theorem row_line_format:
  assumes "set cols \<subseteq> set (columns d)"
  shows "(\<forall>c g. gc = Some c \<and> c \<in> set cols \<and> decode_geom ext (row c) = Inr (VGeom g) \<and> nonempty g \<longrightarrow>
            row_line ext d cols None gc row =
              Inr (fields_text row gc cols @ ''SRID=4326;'' @ wkt g @ nl)) \<and>
         (gc = None \<or>
          (\<exists>c. gc = Some c \<and>
             (c \<notin> set cols \<or> row c = VNone \<or> decode_geom ext (row c) = Inr VNone \<or>
              (\<exists>g. decode_geom ext (row c) = Inr (VGeom g) \<and> \<not> nonempty g))) \<longrightarrow>
            row_line ext d cols None gc row = Inr (fields_text row gc cols @ nl)) \<and>
         (\<forall>lng lat.
            gc \<notin> Some ` set (kept ext (Some (lng, lat)) cols) \<and>
            lng \<in> set (kept ext (Some (lng, lat)) cols) \<and>
            lat \<in> set (kept ext (Some (lng, lat)) cols) \<and>
            row lng \<noteq> VNone \<and> row lat \<noteq> VNone \<longrightarrow>
            row_line ext d cols (Some (lng, lat)) gc row =
              Inr (fields_text row gc (kept ext (Some (lng, lat)) cols)
                   @ ''SRID=4326;POINT('' @ py_str (row lng) @ '' '' @ py_str (row lat) @ '')'' @ nl)) \<and>
         length (Dataset_rows ext d cols wl gc) = length (rows d)"
proof -
  note rl = row_line_closed [OF assms, of ext _ _ row]
  have k: "kept ext None cols = cols" by (simp add: kept_def)
  have a: "\<forall>c g. gc = Some c \<and> c \<in> set cols \<and> decode_geom ext (row c) = Inr (VGeom g) \<and> nonempty g \<longrightarrow>
            row_line ext d cols None gc row =
              Inr (fields_text row gc cols @ ''SRID=4326;'' @ wkt g @ nl)"
  proof (intro allI impI)
    fix c g
    assume h: "gc = Some c \<and> c \<in> set cols \<and> decode_geom ext (row c) = Inr (VGeom g) \<and> nonempty g"
    then have "row c \<noteq> VNone"
      using decode_geom_VNone [of ext g] by auto
    with h show "row_line ext d cols None gc row =
              Inr (fields_text row gc cols @ ''SRID=4326;'' @ wkt g @ nl)"
      by (simp add: rl [of None] k picked_def geom_field_cases)
  qed
  have b: "gc = None \<or>
          (\<exists>c. gc = Some c \<and>
             (c \<notin> set cols \<or> row c = VNone \<or> decode_geom ext (row c) = Inr VNone \<or>
              (\<exists>g. decode_geom ext (row c) = Inr (VGeom g) \<and> \<not> nonempty g))) \<longrightarrow>
            row_line ext d cols None gc row = Inr (fields_text row gc cols @ nl)"
  proof
    assume h: "gc = None \<or>
          (\<exists>c. gc = Some c \<and>
             (c \<notin> set cols \<or> row c = VNone \<or> decode_geom ext (row c) = Inr VNone \<or>
              (\<exists>g. decode_geom ext (row c) = Inr (VGeom g) \<and> \<not> nonempty g)))"
    have "geom_field ext (picked row gc cols VNone) = Inr []"
    proof (rule geom_field_empty)
      from h show "picked row gc cols VNone = VNone \<or>
        decode_geom ext (picked row gc cols VNone) = Inr VNone \<or>
        (\<exists>g. decode_geom ext (picked row gc cols VNone) = Inr (VGeom g) \<and> \<not> nonempty g)"
        by (cases gc) (auto simp: picked_def)
    qed
    then show "row_line ext d cols None gc row = Inr (fields_text row gc cols @ nl)"
      by (simp add: rl [of None] k)
  qed
  have c: "\<forall>lng lat.
            gc \<notin> Some ` set (kept ext (Some (lng, lat)) cols) \<and>
            lng \<in> set (kept ext (Some (lng, lat)) cols) \<and>
            lat \<in> set (kept ext (Some (lng, lat)) cols) \<and>
            row lng \<noteq> VNone \<and> row lat \<noteq> VNone \<longrightarrow>
            row_line ext d cols (Some (lng, lat)) gc row =
              Inr (fields_text row gc (kept ext (Some (lng, lat)) cols)
                   @ ''SRID=4326;POINT('' @ py_str (row lng) @ '' '' @ py_str (row lat) @ '')'' @ nl)"
  proof (intro allI impI)
    fix lng lat
    assume h: "gc \<notin> Some ` set (kept ext (Some (lng, lat)) cols) \<and>
            lng \<in> set (kept ext (Some (lng, lat)) cols) \<and>
            lat \<in> set (kept ext (Some (lng, lat)) cols) \<and>
            row lng \<noteq> VNone \<and> row lat \<noteq> VNone"
    then have g: "picked row gc (kept ext (Some (lng, lat)) cols) VNone = VNone"
      by (auto simp: picked_def split: option.splits)
    from h show "row_line ext d cols (Some (lng, lat)) gc row =
              Inr (fields_text row gc (kept ext (Some (lng, lat)) cols)
                   @ ''SRID=4326;POINT('' @ py_str (row lng) @ '' '' @ py_str (row lat) @ '')'' @ nl)"
      by (simp add: rl [of "Some (lng, lat)"] g geom_field_cases) (simp add: picked_def)
  qed
  have d: "length (Dataset_rows ext d cols wl gc) = length (rows d)"
    by (simp add: Dataset_rows_def)
  show ?thesis using a b c d by blast
qed

lemma str_int_digit: "0 \<le> i \<Longrightarrow> i < 10 \<Longrightarrow> str_int i = [digit_char (nat i)]"
  by (simp add: str_int_def str_nat_digit)

text \<open>
  Witness for C1: the row id=1, name=A with the point at (1,2), whose line carries the
  point's own WKT text \<^verbatim>\<open>POINT (1 2)\<close>, and the row lon=3, lat=4 in lon/lat mode, whose
  point is written by \<^verbatim>\<open>_rows\<close> itself as \<^verbatim>\<open>POINT(3 4)\<close>.
\<close>

theorem row_line_format_witness:
  "row_line demo_ext demo_df [''id'', ''name'', ''the_geom''] None (Some ''the_geom'') demo_row =
     Inr (''1|A|SRID=4326;POINT (1 2)'' @ nl) \<and>
   row_line demo_ext lonlat_df [''lon'', ''lat''] (Some (''lon'', ''lat'')) None lonlat_row =
     Inr (''3|4|SRID=4326;POINT(3 4)'' @ nl)"
proof -
  have 1: "set [''id'', ''name'', ''the_geom''] \<subseteq> set (columns demo_df)"
    by (simp add: demo_df_def)
  have 2: "set [''lon'', ''lat''] \<subseteq> set (columns lonlat_df)"
    by (simp add: lonlat_df_def)
  have dg: "decode_geom demo_ext (demo_row ''the_geom'') = Inr (VGeom point12)"
    by (simp add: decode_geom_def decode_geom_traced_def demo_row_def)
  have a: "row_line demo_ext demo_df [''id'', ''name'', ''the_geom''] None (Some ''the_geom'') demo_row =
     Inr (''1|A|SRID=4326;POINT (1 2)'' @ nl)"
    using row_line_format [OF 1, of "Some ''the_geom''" demo_ext demo_row, THEN conjunct1,
        rule_format, of "''the_geom''" point12] dg
    by (simp add: fields_text_def field_text_def demo_row_def point12_def str_int_digit digit_char_def)
  have b: "row_line demo_ext lonlat_df [''lon'', ''lat''] (Some (''lon'', ''lat'')) None lonlat_row =
     Inr (''3|4|SRID=4326;POINT(3 4)'' @ nl)"
    using row_line_format [OF 2, of None demo_ext lonlat_row, THEN conjunct2, THEN conjunct2,
        THEN conjunct1, rule_format, of "''lon''" "''lat''"]
    by (simp add: kept_def demo_ext_def fields_text_def field_text_def lonlat_row_def str_int_digit
        digit_char_def)
  show ?thesis using a b by simp
qed

lemma demo_row_line:
  "row_line demo_ext demo_df [''id'', ''name'', ''the_geom''] None (Some ''the_geom'') demo_row =
     Inr (''1|A|SRID=4326;POINT (1 2)'' @ nl)"
proof -
  have 1: "set [''id'', ''name'', ''the_geom''] \<subseteq> set (columns demo_df)"
    by (simp add: demo_df_def)
  have dg: "decode_geom demo_ext (VGeom point12) = Inr (VGeom point12)"
    by (simp add: decode_geom_def decode_geom_traced_def)
  have e: "demo_row ''the_geom'' = VGeom point12" "nonempty point12" "wkt point12 = ''POINT (1 2)''"
    by (simp_all add: demo_row_def point12_def)
  show ?thesis
    using dg
    by (simp add: row_line_closed [OF 1] kept_def picked_def geom_field_cases e)
       (simp add: fields_text_def field_text_def demo_row_def str_int_digit digit_char_def)
qed

text \<open>
  Counterexample to C1 as stated, on two rows. When the geometry column holds an
  empty geometry, \<^verbatim>\<open>_decode_geom\<close> returns it as it is (it decodes to a geometry) and the
  line has no geometry field. And the line of the row id=1, name=A with the point at
  (1,2) is \<^verbatim>\<open>1|A|SRID=4326;POINT (1 2)\<close>, not \<^verbatim>\<open>1|A|SRID=4326;POINT(1 2)\<close>.
\<close>

theorem row_line_counterexample:
  "decode_geom demo_ext (empty_row ''the_geom'') = Inr (VGeom empty_geom) \<and>
   row_line demo_ext demo_df [''id'', ''name'', ''the_geom''] None (Some ''the_geom'') empty_row =
     Inr (''1|A|'' @ nl) \<and>
   row_line demo_ext demo_df [''id'', ''name'', ''the_geom''] None (Some ''the_geom'') demo_row =
     Inr (''1|A|SRID=4326;POINT (1 2)'' @ nl) \<and>
   row_line demo_ext demo_df [''id'', ''name'', ''the_geom''] None (Some ''the_geom'') demo_row \<noteq>
     Inr (''1|A|SRID=4326;POINT(1 2)'' @ nl)"
proof -
  have 1: "set [''id'', ''name'', ''the_geom''] \<subseteq> set (columns demo_df)"
    by (simp add: demo_df_def)
  have dg: "decode_geom demo_ext (empty_row ''the_geom'') = Inr (VGeom empty_geom)"
    by (simp add: decode_geom_def decode_geom_traced_def empty_row_def)
  have e: "empty_row ''the_geom'' = VGeom empty_geom" "\<not> nonempty empty_geom"
    by (simp_all add: empty_row_def empty_geom_def)
  have "row_line demo_ext demo_df [''id'', ''name'', ''the_geom''] None (Some ''the_geom'') empty_row =
     Inr (''1|A|'' @ nl)"
    using dg
    by (simp add: row_line_closed [OF 1] kept_def picked_def geom_field_cases e)
       (simp add: fields_text_def field_text_def empty_row_def str_int_digit digit_char_def)
  with dg show ?thesis by (simp add: demo_row_line)
qed

lemma demo_copy_lines:
  "copy_lines demo_ext demo_df None = [''1|A|SRID=4326;POINT (1 2)'' @ nl]"
proof -
  have r: "rows demo_df = [demo_row]" "columns demo_df = [''id'', ''name'', ''the_geom'']"
    by (simp_all add: demo_df_def demo_row_def)
  show ?thesis
    by (simp add: copy_lines_def Dataset_rows_def demo_geom_col_name r demo_row_line)
qed

text \<open>
  Witness for C2: on a service where every call succeeds the table exists; policy
  \<^verbatim>\<open>'fail'\<close> raises after the probe alone, policy \<^verbatim>\<open>'append'\<close> goes on to the bulk copy.
\<close>

theorem upload_conflict_policy_witness:
  "upload demo_ext demo_cc demo_ds None ''fail'' [] =
     (Inl (NameError (already_exists_msg ''t'')), [SqlSend (exists_query demo_ds) False]) \<and>
   snd (upload demo_ext demo_cc demo_ds None ''append'' []) =
     [SqlSend (exists_query demo_ds) False,
      CopyFrom (copyfrom_query demo_ds ''id,name'') [''1|A|SRID=4326;POINT (1 2)'' @ nl]]"
proof -
  have 1: "df demo_ds = Some demo_df"
    by (simp add: demo_ds_def)
  have 2: "normalized_column_names demo_ds = Some [(''id'', ''id''), (''name'', ''name'')]"
    by (simp add: demo_ds_def)
  have 3: "\<And>l q b e. sql_client_send demo_cc l q b = Inl e \<Longrightarrow> \<not> is_NameError e"
    by (simp add: demo_cc_def)
  have 4: "\<And>l q e. create_and_wait_for_completion demo_cc l q = Inl e \<Longrightarrow> \<not> is_NameError e"
    by (simp add: demo_cc_def)
  have 5: "\<And>l q ls e. copy_client_copyfrom demo_cc l q ls = Some e \<Longrightarrow> \<not> is_NameError e"
    by (simp add: demo_cc_def)
  have ex: "fst (Dataset_exists demo_cc demo_ds []) = Inr True"
    by (simp add: Dataset_exists_def demo_cc_def)
  have t: "table_name demo_ds = ''t''"
    by (simp add: demo_ds_def)
  note u = upload_conflict_policy [OF 1 2 3 4 5, where ext = demo_ext and wl = None and log = "[]"]
  have a: "upload demo_ext demo_cc demo_ds None ''fail'' [] =
     (Inl (NameError (already_exists_msg ''t'')), [SqlSend (exists_query demo_ds) False])"
    using u [where pol = "''fail''", THEN conjunct2, THEN conjunct1] ex by (simp add: t)
  have b: "snd (upload demo_ext demo_cc demo_ds None ''append'' []) =
     [SqlSend (exists_query demo_ds) False,
      CopyFrom (copyfrom_query demo_ds ''id,name'') [''1|A|SRID=4326;POINT (1 2)'' @ nl]]"
    using u [where pol = "''append''", THEN conjunct2, THEN conjunct2, THEN conjunct1] ex
    by (simp add: demo_copy_lines)
  show ?thesis using a b by simp
qed

end
